theory Spec2Isabelle
  imports Complex_Main
begin

section \<open>Numbers and the Math library\<close>

text \<open>
  A JavaScript number is modelled as a real: the model covers finite values with exact
  arithmetic. A quotient whose divisor is zero is \<open>Infinity\<close> or \<open>NaN\<close> in the source
  and has no counterpart here, so the theorem of a claim that involves such a quotient
  states that the divisor is not zero.
\<close>

definition Math_hypot :: "real \<Rightarrow> real \<Rightarrow> real" where
  "Math_hypot a b = sqrt (a * a + b * b)"

text \<open>\<open>Math.atan2(b, a)\<close>: the angle of the vector \<open>(a, b)\<close> in \<open>(-\<pi>, \<pi>]\<close>, with \<open>atan2(0, 0) = 0\<close>.\<close>

definition Math_atan2 :: "real \<Rightarrow> real \<Rightarrow> real" where
  "Math_atan2 b a =
     (if 0 < a then arctan (b / a)
      else if a < 0 then (if 0 \<le> b then arctan (b / a) + pi else arctan (b / a) - pi)
      else if 0 < b then pi / 2
      else if b < 0 then - (pi / 2)
      else 0)"

definition startsWith :: "string \<Rightarrow> string \<Rightarrow> bool" where
  "startsWith s p = (take (length p) s = p)"

section \<open>Data model (useHandDetection.ts)\<close>

record point =
  x :: real
  y :: real

text \<open>\<open>boundingBox: { x, y, width, height, rotation }\<close>, all normalised to the image.\<close>

record BoundingBox = point +
  width :: real
  height :: real
  rotation :: real

text \<open>
  \<open>NailMeasurement\<close>. Its own \<open>width\<close> and \<open>length\<close> fields are named \<open>widthM\<close> and
  \<open>lengthM\<close> here; \<open>width\<close> is the field of the bounding box.
\<close>

record NailMeasurement =
  finger :: string
  widthM :: real
  lengthM :: real
  boundingBox :: BoundingBox

section \<open>The overlay component (NailOverlay)\<close>

text \<open>\<open>transform = { scale, x, y }\<close>.\<close>

record ViewTransform = point +
  scale :: real

text \<open>A mouse event or one touch point: \<open>clientX\<close>, \<open>clientY\<close>.\<close>

record Pointer =
  clientX :: real
  clientY :: real

text \<open>The result of \<open>getBoundingClientRect()\<close>: \<open>left\<close>, \<open>top\<close>, \<open>width\<close>, \<open>height\<close>.\<close>

record DOMRect =
  leftR :: real
  topR :: real
  widthR :: real
  heightR :: real

text \<open>
  \<open>initialMeasurementRef.current = { ...measurements[index] }\<close>: a copy of the element,
  or the empty object when the index is out of range (spreading \<open>undefined\<close>).
\<close>

datatype snapshot = Snapshot NailMeasurement | EmptyObject

text \<open>
  \<open>TypeError\<close>: a property of \<open>undefined\<close> is read. \<open>SparseArray\<close>: an element is
  assigned beyond the end of the array, which JavaScript extends with holes; the model
  has no holes and reports the assignment instead. \<open>Error msg\<close>: \<open>throw new Error(msg)\<close>,
  here or inside the external detector.
\<close>

datatype js_error = TypeError | SparseArray | Error string

record Overlay =
  transform :: ViewTransform
  isPanning :: bool
  panStartRef :: point
  panStartTransformRef :: point
  activeId :: "nat option"
  interactionMode :: "string option"
  dragStartRef :: point
  initialMeasurementRef :: "snapshot option"
  pinchStartDistRef :: real
  pinchStartScaleRef :: real

text \<open>The state on mount: the \<open>useState\<close> and \<open>useRef\<close> initial values.\<close>

definition initialOverlay :: Overlay where
  "initialOverlay =
     \<lparr>transform = \<lparr>x = 0, y = 0, scale = 1\<rparr>, isPanning = False,
      panStartRef = \<lparr>x = 0, y = 0\<rparr>, panStartTransformRef = \<lparr>x = 0, y = 0\<rparr>,
      activeId = None, interactionMode = None, dragStartRef = \<lparr>x = 0, y = 0\<rparr>,
      initialMeasurementRef = None, pinchStartDistRef = 0, pinchStartScaleRef = 1\<rparr>"

definition handleWheel :: "real \<Rightarrow> Overlay \<Rightarrow> Overlay" where
  "handleWheel deltaY s =
     (let scaleAmount = - deltaY * 0.001;
          newScale = min (max 0.5 (scale (transform s) * (1 + scaleAmount))) 5
      in s\<lparr>transform := (transform s)\<lparr>scale := newScale\<rparr>\<rparr>)"

text \<open>The three buttons of the zoom controls: \<open>-\<close>, \<open>+\<close> and \<open>Reset\<close>.\<close>

definition zoomOutClick :: "Overlay \<Rightarrow> Overlay" where
  "zoomOutClick s = s\<lparr>transform := (transform s)\<lparr>scale := max 0.5 (scale (transform s) - 0.5)\<rparr>\<rparr>"

definition zoomInClick :: "Overlay \<Rightarrow> Overlay" where
  "zoomInClick s = s\<lparr>transform := (transform s)\<lparr>scale := min 5 (scale (transform s) + 0.5)\<rparr>\<rparr>"

definition resetClick :: "Overlay \<Rightarrow> Overlay" where
  "resetClick s = s\<lparr>transform := \<lparr>x = 0, y = 0, scale = 1\<rparr>\<rparr>"

definition takeSnapshot :: "NailMeasurement list \<Rightarrow> nat \<Rightarrow> snapshot" where
  "takeSnapshot measurements index =
     (if index < length measurements then Snapshot (measurements ! index) else EmptyObject)"

definition handleMouseDown ::
  "Pointer \<Rightarrow> nat option \<Rightarrow> string \<Rightarrow> NailMeasurement list \<Rightarrow> Overlay \<Rightarrow> Overlay" where
  "handleMouseDown e index mode measurements s =
     (case index of
        None \<Rightarrow>
          s\<lparr>isPanning := True,
            panStartRef := \<lparr>x = clientX e, y = clientY e\<rparr>,
            panStartTransformRef := \<lparr>x = x (transform s), y = y (transform s)\<rparr>\<rparr>
      | Some i \<Rightarrow>
          s\<lparr>activeId := Some i,
            interactionMode := Some mode,
            dragStartRef := \<lparr>x = clientX e, y = clientY e\<rparr>,
            initialMeasurementRef := Some (takeSnapshot measurements i)\<rparr>)"

text \<open>
  The body that \<open>handleMouseMove\<close> (lines 96 to 219) and \<open>handleTouchMove\<close> (lines 307 to
  397) both contain, with the same text: the element written to
  \<open>newMeasurements[activeId]\<close>, or \<open>None\<close> when the mode matches no branch and nothing is
  written. \<open>e\<close> is the mouse event or the first touch.
\<close>

definition gestureUpdate ::
  "DOMRect \<Rightarrow> Pointer \<Rightarrow> point \<Rightarrow> string \<Rightarrow> NailMeasurement \<Rightarrow> NailMeasurement option" where
  "gestureUpdate rect e dragStart mode initialM =
     (let bb = boundingBox initialM;
          cxNorm = x bb;
          cyNorm = y bb;
          centerX = leftR rect + cxNorm * widthR rect;
          centerY = topR rect + cyNorm * heightR rect;
          dxPx = clientX e - x dragStart;
          dyPx = clientY e - y dragStart
      in if mode = ''rotate'' then
           (let vecX = clientX e - centerX;
                vecY = clientY e - centerY;
                currentAngle = Math_atan2 vecY vecX;
                startVecX = x dragStart - centerX;
                startVecY = y dragStart - centerY;
                startAngle = Math_atan2 startVecY startVecX;
                deltaRotation = currentAngle - startAngle
            in Some (initialM\<lparr>boundingBox := bb\<lparr>rotation := rotation bb + deltaRotation\<rparr>\<rparr>))
         else if mode = ''drag'' then
           (let dx = dxPx / widthR rect;
                dy = dyPx / heightR rect
            in Some (initialM\<lparr>boundingBox := bb\<lparr>x := x bb + dx, y := y bb + dy\<rparr>\<rparr>))
         else if startsWith mode ''resize'' then
           (let dx = dxPx / widthR rect;
                dy = dyPx / heightR rect;
                rot = rotation bb;
                c = cos (- rot);
                sn = sin (- rot);
                localDx = dx * c - dy * sn;
                localDy = dx * sn + dy * c;
                newW = (if mode = ''resize-e'' then max 0.01 (width bb + localDx)
                        else if mode = ''resize-w'' then max 0.01 (width bb - localDx)
                        else width bb);
                newH = (if mode = ''resize-s'' then max 0.01 (height bb + localDy)
                        else if mode = ''resize-n'' then max 0.01 (height bb - localDy)
                        else height bb);
                shiftLocalX = (if mode = ''resize-e'' \<or> mode = ''resize-w'' then localDx / 2 else 0);
                shiftLocalY = (if mode = ''resize-s'' \<or> mode = ''resize-n'' then localDy / 2 else 0);
                globalShiftX = shiftLocalX * cos rot - shiftLocalY * sin rot;
                globalShiftY = shiftLocalX * sin rot + shiftLocalY * cos rot
            in Some (initialM\<lparr>boundingBox :=
                       bb\<lparr>width := newW, height := newH,
                          x := x bb + globalShiftX, y := y bb + globalShiftY\<rparr>\<rparr>))
         else None)"

text \<open>\<open>newMeasurements[activeId] = v\<close> on the copy \<open>[...measurements]\<close>.\<close>

definition assignAt :: "'a list \<Rightarrow> nat \<Rightarrow> 'a \<Rightarrow> js_error + 'a list" where
  "assignAt xs i v = (if i < length xs then Inr (xs[i := v]) else Inl SparseArray)"

text \<open>\<open>!interactionMode\<close>: \<open>null\<close> and the empty string are falsy.\<close>

definition falsyMode :: "string option \<Rightarrow> bool" where
  "falsyMode m = (case m of None \<Rightarrow> True | Some t \<Rightarrow> t = [])"

text \<open>
  A move handler returns the next component state and what it passed to
  \<open>onMeasurementsChange\<close>, \<open>None\<close> when the callback was not called.
  \<open>handleMouseMove\<close> builds \<open>newMeasurements\<close> and ends without calling the callback.
\<close>

definition handleMouseMove ::
  "DOMRect option \<Rightarrow> Pointer \<Rightarrow> NailMeasurement list \<Rightarrow> Overlay
     \<Rightarrow> js_error + Overlay \<times> NailMeasurement list option" where
  "handleMouseMove container e measurements s =
     (if isPanning s then
        (let dx = clientX e - x (panStartRef s);
             dy = clientY e - y (panStartRef s)
         in Inr (s\<lparr>transform := (transform s)\<lparr>x := x (panStartTransformRef s) + dx,
                                                y := y (panStartTransformRef s) + dy\<rparr>\<rparr>, None))
      else
        (case (activeId s, interactionMode s, container, initialMeasurementRef s) of
           (Some i, Some mode, Some rect, Some snap) \<Rightarrow>
             (if falsyMode (Some mode) then Inr (s, None)
              else (case snap of
                      EmptyObject \<Rightarrow> Inl TypeError
                    | Snapshot initialM \<Rightarrow>
                        (let newMeasurements =
                               (case gestureUpdate rect e (dragStartRef s) mode initialM of
                                  None \<Rightarrow> Inr measurements
                                | Some m \<Rightarrow> assignAt measurements i m)
                         in Inr (s, None))))
         | _ \<Rightarrow> Inr (s, None)))"

definition getPinchDist :: "Pointer list \<Rightarrow> real" where
  "getPinchDist touches =
     (if length touches < 2 then 0
      else (let t1 = touches ! 0; t2 = touches ! 1
            in Math_hypot (clientX t1 - clientX t2) (clientY t1 - clientY t2)))"

text \<open>
  A touch event always carries a touch; for the empty list the model reports the read of
  \<open>touch.clientX\<close> on \<open>undefined\<close> and drops the state written before it.
\<close>

definition handleTouchStart ::
  "Pointer list \<Rightarrow> nat option \<Rightarrow> string \<Rightarrow> NailMeasurement list \<Rightarrow> Overlay
     \<Rightarrow> js_error + Overlay" where
  "handleTouchStart touches index mode measurements s =
     (if length touches = 2 then
        Inr (s\<lparr>pinchStartDistRef := getPinchDist touches,
               pinchStartScaleRef := scale (transform s),
               isPanning := False,
               activeId := None,
               interactionMode := None\<rparr>)
      else
        (case touches of
           [] \<Rightarrow> Inl TypeError
         | touch # _ \<Rightarrow>
             (case index of
                None \<Rightarrow>
                  Inr (s\<lparr>isPanning := True,
                         panStartRef := \<lparr>x = clientX touch, y = clientY touch\<rparr>,
                         panStartTransformRef := \<lparr>x = x (transform s), y = y (transform s)\<rparr>\<rparr>)
              | Some i \<Rightarrow>
                  Inr (s\<lparr>activeId := Some i,
                         interactionMode := Some mode,
                         dragStartRef := \<lparr>x = clientX touch, y = clientY touch\<rparr>,
                         initialMeasurementRef := Some (takeSnapshot measurements i)\<rparr>))))"

definition handleTouchMove ::
  "DOMRect option \<Rightarrow> Pointer list \<Rightarrow> NailMeasurement list \<Rightarrow> Overlay
     \<Rightarrow> js_error + Overlay \<times> NailMeasurement list option" where
  "handleTouchMove container touches measurements s =
     (if length touches = 2 then
        (let dist = getPinchDist touches
         in if 0 < pinchStartDistRef s \<and> 0 < dist then
              (let scaleRatio = dist / pinchStartDistRef s;
                   newScale = min (max 0.5 (pinchStartScaleRef s * scaleRatio)) 5
               in Inr (s\<lparr>transform := (transform s)\<lparr>scale := newScale\<rparr>\<rparr>, None))
            else Inr (s, None))
      else if isPanning s then
        (case touches of
           [] \<Rightarrow> Inl TypeError
         | touch # _ \<Rightarrow>
             (let dx = clientX touch - x (panStartRef s);
                  dy = clientY touch - y (panStartRef s)
              in Inr (s\<lparr>transform := (transform s)\<lparr>x := x (panStartTransformRef s) + dx,
                                                     y := y (panStartTransformRef s) + dy\<rparr>\<rparr>, None)))
      else
        (case (activeId s, interactionMode s, container, initialMeasurementRef s) of
           (Some i, Some mode, Some rect, Some snap) \<Rightarrow>
             (if falsyMode (Some mode) then Inr (s, None)
              else (case snap of
                      EmptyObject \<Rightarrow> Inl TypeError
                    | Snapshot initialM \<Rightarrow>
                        (case touches of
                           [] \<Rightarrow> Inl TypeError
                         | touch # _ \<Rightarrow>
                             (case gestureUpdate rect touch (dragStartRef s) mode initialM of
                                None \<Rightarrow> Inr (s, Some measurements)
                              | Some m \<Rightarrow>
                                  (case assignAt measurements i m of
                                     Inl err \<Rightarrow> Inl err
                                   | Inr newMeasurements \<Rightarrow> Inr (s, Some newMeasurements))))))
         | _ \<Rightarrow> Inr (s, None)))"

definition handleTouchEnd :: "Overlay \<Rightarrow> Overlay" where
  "handleTouchEnd s = s\<lparr>isPanning := False, activeId := None, interactionMode := None\<rparr>"

definition handleMouseUp :: "Overlay \<Rightarrow> Overlay" where
  "handleMouseUp s = s\<lparr>isPanning := False, activeId := None, interactionMode := None\<rparr>"

text \<open>
  A stream of touch events on the overlay, run against the measurement list that the
  parent owns: \<open>onMeasurementsChange\<close> is the parent's \<open>setMeasurements\<close>, so a published
  list replaces the current one. A move event carries what \<open>getBoundingClientRect()\<close>
  returns at that moment. The run stops at the first exception.
\<close>

datatype touch_event =
  TouchStart "Pointer list" "nat option" string
| TouchMove "DOMRect option" "Pointer list"
| TouchEnd

fun touchEvent ::
  "touch_event \<Rightarrow> Overlay \<times> NailMeasurement list \<Rightarrow> js_error + Overlay \<times> NailMeasurement list" where
  "touchEvent (TouchStart touches index mode) (s, measurements) =
     (case handleTouchStart touches index mode measurements s of
        Inl err \<Rightarrow> Inl err
      | Inr s' \<Rightarrow> Inr (s', measurements))"
| "touchEvent (TouchMove container touches) (s, measurements) =
     (case handleTouchMove container touches measurements s of
        Inl err \<Rightarrow> Inl err
      | Inr (s', published) \<Rightarrow>
          Inr (s', case published of None \<Rightarrow> measurements | Some newMeasurements \<Rightarrow> newMeasurements))"
| "touchEvent TouchEnd (s, measurements) = Inr (handleTouchEnd s, measurements)"

fun touchEvents ::
  "touch_event list \<Rightarrow> Overlay \<times> NailMeasurement list \<Rightarrow> js_error + Overlay \<times> NailMeasurement list" where
  "touchEvents [] st = Inr st"
| "touchEvents (ev # evs) st =
     (case touchEvent ev st of Inl err \<Rightarrow> Inl err | Inr st' \<Rightarrow> touchEvents evs st')"

text \<open>The same for the mouse: \<open>onMouseDown\<close>, \<open>onMouseMove\<close>, \<open>onMouseUp\<close> (and \<open>onMouseLeave\<close>).\<close>

datatype mouse_event =
  MouseDown Pointer "nat option" string
| MouseMove "DOMRect option" Pointer
| MouseUp

fun mouseEvent ::
  "mouse_event \<Rightarrow> Overlay \<times> NailMeasurement list \<Rightarrow> js_error + Overlay \<times> NailMeasurement list" where
  "mouseEvent (MouseDown e index mode) (s, measurements) =
     Inr (handleMouseDown e index mode measurements s, measurements)"
| "mouseEvent (MouseMove container e) (s, measurements) =
     (case handleMouseMove container e measurements s of
        Inl err \<Rightarrow> Inl err
      | Inr (s', published) \<Rightarrow>
          Inr (s', case published of None \<Rightarrow> measurements | Some newMeasurements \<Rightarrow> newMeasurements))"
| "mouseEvent MouseUp (s, measurements) = Inr (handleMouseUp s, measurements)"

fun mouseEvents ::
  "mouse_event list \<Rightarrow> Overlay \<times> NailMeasurement list \<Rightarrow> js_error + Overlay \<times> NailMeasurement list" where
  "mouseEvents [] st = Inr st"
| "mouseEvents (ev # evs) st =
     (case mouseEvent ev st of Inl err \<Rightarrow> Inl err | Inr st' \<Rightarrow> mouseEvents evs st')"

text \<open>The floor of the box dimensions, and a box that respects it.\<close>

definition boxOk :: "NailMeasurement \<Rightarrow> bool" where
  "boxOk m = (0.01 \<le> width (boundingBox m) \<and> 0.01 \<le> height (boundingBox m))"

definition rectOk :: "DOMRect \<Rightarrow> bool" where
  "rectOk rect = (widthR rect \<noteq> 0 \<and> heightR rect \<noteq> 0)"

text \<open>
  The pointer delta since the start of the gesture, normalised by the container and
  rotated into the frame of the box: the \<open>localDx\<close> and \<open>localDy\<close> of the resize branch.
\<close>

definition localDx :: "DOMRect \<Rightarrow> Pointer \<Rightarrow> point \<Rightarrow> real \<Rightarrow> real" where
  "localDx rect e dragStart rot =
     (clientX e - x dragStart) / widthR rect * cos (- rot)
       - (clientY e - y dragStart) / heightR rect * sin (- rot)"

definition localDy :: "DOMRect \<Rightarrow> Pointer \<Rightarrow> point \<Rightarrow> real \<Rightarrow> real" where
  "localDy rect e dragStart rot =
     (clientX e - x dragStart) / widthR rect * sin (- rot)
       + (clientY e - y dragStart) / heightR rect * cos (- rot)"

text \<open>
  What a run of touch events keeps true: every box respects the floor, the active index
  is inside the list, and the snapshot of the gesture is a box that respects the floor.
\<close>

definition overlayInv :: "Overlay \<times> NailMeasurement list \<Rightarrow> bool" where
  "overlayInv st =
     (case st of (s, measurements) \<Rightarrow>
        list_all boxOk measurements
        \<and> (case activeId s of None \<Rightarrow> True | Some i \<Rightarrow> i < length measurements)
        \<and> (case initialMeasurementRef s of
              None \<Rightarrow> True
            | Some EmptyObject \<Rightarrow> False
            | Some (Snapshot m) \<Rightarrow> boxOk m))"

text \<open>
  An event the rendered overlay can deliver on a list of \<open>n\<close> boxes: at least one touch,
  a box index that the list has, a container with non-zero width and height.
\<close>

fun eventOk :: "nat \<Rightarrow> touch_event \<Rightarrow> bool" where
  "eventOk n (TouchStart touches index mode) =
     (touches \<noteq> [] \<and> (case index of None \<Rightarrow> True | Some i \<Rightarrow> i < n))"
| "eventOk n (TouchMove container touches) =
     (touches \<noteq> [] \<and> (case container of None \<Rightarrow> True | Some rect \<Rightarrow> rectOk rect))"
| "eventOk n TouchEnd = True"

section \<open>The detector hook (useHandDetection.ts)\<close>

text \<open>A \<open>NormalizedLandmark\<close>: \<open>x\<close>, \<open>y\<close>, \<open>z\<close>.\<close>

record landmark = point +
  z :: real

record FingerSpec =
  name :: string
  tip :: nat
  dip :: nat
  pip :: nat
  aspectRatio :: real
  lengthRatio :: real

definition fingers :: "FingerSpec list" where
  "fingers =
     [\<lparr>name = ''Thumb'', tip = 4, dip = 3, pip = 2, aspectRatio = 1.1, lengthRatio = 0.6\<rparr>,
      \<lparr>name = ''Index'', tip = 8, dip = 7, pip = 6, aspectRatio = 0.95, lengthRatio = 0.6\<rparr>,
      \<lparr>name = ''Middle'', tip = 12, dip = 11, pip = 10, aspectRatio = 0.95, lengthRatio = 0.6\<rparr>,
      \<lparr>name = ''Ring'', tip = 16, dip = 15, pip = 14, aspectRatio = 0.9, lengthRatio = 0.6\<rparr>,
      \<lparr>name = ''Pinky'', tip = 20, dip = 19, pip = 18, aspectRatio = 0.9, lengthRatio = 0.6\<rparr>]"

text \<open>
  The callback of \<open>fingers.map\<close> in \<open>estimateNailBounds\<close>. A landmark index beyond the
  array gives \<open>undefined\<close>, and reading its \<open>x\<close> throws.
\<close>

definition nailOfFinger :: "landmark list \<Rightarrow> FingerSpec \<Rightarrow> js_error + NailMeasurement" where
  "nailOfFinger landmarks f =
     (if tip f < length landmarks \<and> dip f < length landmarks then
        (let tp = landmarks ! tip f;
             dp = landmarks ! dip f;
             dxDistal = x dp - x tp;
             dyDistal = y dp - y tp;
             distalLength = sqrt (dxDistal * dxDistal + dyDistal * dyDistal);
             fingerAngle = Math_atan2 dyDistal dxDistal;
             rot = fingerAngle - pi / 2;
             lengthR = (if name f = ''Thumb'' then 0.7 else 0.85);
             aspectR = (if name f = ''Thumb'' then 1.2 else 1.0);
             nailLength = distalLength * lengthR;
             nailWidth = nailLength * aspectR;
             nx = dxDistal / distalLength;
             ny = dyDistal / distalLength;
             shiftRatio = 0.1;
             cx = x tp + nx * (nailLength * shiftRatio);
             cy = y tp + ny * (nailLength * shiftRatio)
         in Inr \<lparr>finger = name f, widthM = nailWidth, lengthM = nailLength,
                 boundingBox = \<lparr>x = cx, y = cy, width = nailWidth, height = nailLength,
                                rotation = rot\<rparr>\<rparr>)
      else Inl TypeError)"

fun collect :: "(js_error + 'a) list \<Rightarrow> js_error + 'a list" where
  "collect [] = Inr []"
| "collect (r # rs) =
     (case r of
        Inl err \<Rightarrow> Inl err
      | Inr v \<Rightarrow> (case collect rs of Inl err \<Rightarrow> Inl err | Inr vs \<Rightarrow> Inr (v # vs)))"

definition estimateNailBounds :: "landmark list \<Rightarrow> js_error + NailMeasurement list" where
  "estimateNailBounds landmarks = collect (map (nailOfFinger landmarks) fingers)"

text \<open>
  The external \<open>HandLandmarker\<close>: what \<open>landmarker.detect(image)\<close> does on the image with a
  given source, either throwing or returning the landmarks of each hand.
\<close>

type_synonym HandLandmarker = "string \<Rightarrow> js_error + landmark list list"

record DetectionResult =
  measurementsR :: "NailMeasurement list"
  landmarksR :: "landmark list list"

definition detect :: "HandLandmarker option \<Rightarrow> string \<Rightarrow> js_error + DetectionResult" where
  "detect lm imageElement =
     (case lm of
        None \<Rightarrow> Inl (Error ''Model not loaded'')
      | Some handLandmarker \<Rightarrow>
          (case handLandmarker imageElement of
             Inl err \<Rightarrow> Inl err
           | Inr hands \<Rightarrow>
               (case collect (map estimateNailBounds hands) of
                  Inl err \<Rightarrow> Inl err
                | Inr perHand \<Rightarrow> Inr \<lparr>measurementsR = concat perHand, landmarksR = hands\<rparr>)))"

section \<open>The reference disk (CoinOverlay.tsx)\<close>

definition COIN_DIAMETER_MM :: real where
  "COIN_DIAMETER_MM = 26.0"

record CoinOverlay =
  diameter :: real
  position :: point
  isDragging :: bool
  isResizing :: bool
  coinDragStartRef :: point

definition initialCoin :: CoinOverlay where
  "initialCoin =
     \<lparr>diameter = 100, position = \<lparr>x = 0, y = 0\<rparr>, isDragging = False, isResizing = False,
      coinDragStartRef = \<lparr>x = 0, y = 0\<rparr>\<rparr>"

text \<open>
  The second effect of the component, which runs when \<open>diameter\<close> or \<open>isVisible\<close> changes:
  the value passed to \<open>onCalibrationChange\<close>, \<open>None\<close> when the callback is not called.
\<close>

definition coinCalibration :: "bool \<Rightarrow> CoinOverlay \<Rightarrow> real option" where
  "coinCalibration isVisible c = (if isVisible then Some (diameter c / COIN_DIAMETER_MM) else None)"

text \<open>\<open>handleMouseMove\<close> of the disk; \<open>sc\<close> is the \<open>scale\<close> prop, the zoom of the canvas.\<close>

definition coinMouseMove :: "real \<Rightarrow> Pointer \<Rightarrow> CoinOverlay \<Rightarrow> CoinOverlay" where
  "coinMouseMove sc e c =
     (if \<not> isDragging c \<and> \<not> isResizing c then c
      else
        (let dx = (clientX e - x (coinDragStartRef c)) / sc;
             dy = (clientY e - y (coinDragStartRef c)) / sc;
             c' = (if isDragging c then
                     c\<lparr>position := \<lparr>x = x (position c) + dx, y = y (position c) + dy\<rparr>\<rparr>
                   else if isResizing c then
                     (let delta = max dx dy in c\<lparr>diameter := max 20 (diameter c + delta)\<rparr>)
                   else c)
         in c'\<lparr>coinDragStartRef := \<lparr>x = clientX e, y = clientY e\<rparr>\<rparr>))"

section \<open>The controller (App)\<close>

datatype AppMode = Home | Camera | Upload | Result

record ImageSize =
  widthI :: real
  heightI :: real

text \<open>
  The state of \<open>App\<close>, with the state of the hook it uses (\<open>landmarker\<close>, \<open>isModelLoading\<close>,
  \<open>modelError\<close>) and the lines written by \<open>console.error\<close>.
\<close>

record App =
  appMode :: AppMode
  imageSrc :: "string option"
  imageSize :: ImageSize
  landmarker :: "HandLandmarker option"
  isModelLoading :: bool
  modelError :: "string option"
  measurements :: "NailMeasurement list"
  isAnalyzing :: bool
  highlightedIndex :: "nat option"
  pixelsPerMM :: "real option"
  showCoinTool :: bool
  consoleErrors :: "string list"

definition initialApp :: App where
  "initialApp =
     \<lparr>appMode = Home, imageSrc = None, imageSize = \<lparr>widthI = 0, heightI = 0\<rparr>,
      landmarker = None, isModelLoading = True, modelError = None, measurements = [],
      isAnalyzing = False, highlightedIndex = None, pixelsPerMM = None, showCoinTool = False,
      consoleErrors = []\<rparr>"

text \<open>\<open>initLandmarker\<close>, with the outcome of creating the external model.\<close>

definition initLandmarker :: "HandLandmarker option \<Rightarrow> App \<Rightarrow> App" where
  "initLandmarker created s =
     (case created of
        Some handLandmarker \<Rightarrow> s\<lparr>landmarker := Some handLandmarker, isModelLoading := False\<rparr>
      | None \<Rightarrow>
          s\<lparr>consoleErrors := consoleErrors s @ [''Failed to load MediaPipe HandLandmarker:''],
            modelError := Some ''Failed to load detection model. Please check your connection.'',
            isModelLoading := False\<rparr>)"

text \<open>The body of the effect on \<open>[measurements, imageSize.width, showCoinTool]\<close>.\<close>

definition implicitCalibration :: "App \<Rightarrow> App" where
  "implicitCalibration s =
     (if showCoinTool s then s
      else if pixelsPerMM s \<noteq> None then s
      else if length (measurements s) = 0 \<or> widthI (imageSize s) = 0 then s
      else (case find (\<lambda>m. finger m = ''Thumb'') (measurements s) of
              None \<Rightarrow> s
            | Some thumb \<Rightarrow>
                (let thumbWidthPx = widthM thumb * widthI (imageSize s);
                     ASSUMED_THUMB_WIDTH_MM = 15.0;
                     ratio = thumbWidthPx / ASSUMED_THUMB_WIDTH_MM
                 in s\<lparr>pixelsPerMM := Some ratio\<rparr>)))"

text \<open>
  After a render the effect runs when one of its dependencies changed. \<open>measurements\<close> is
  compared by identity, and every \<open>setMeasurements\<close> of the program passes a new array, so
  \<open>newArray\<close> says whether \<open>setMeasurements\<close> was called.
\<close>

definition afterRender :: "bool \<Rightarrow> App \<Rightarrow> App \<Rightarrow> App" where
  "afterRender newArray old new =
     (if newArray \<or> widthI (imageSize new) \<noteq> widthI (imageSize old)
         \<or> showCoinTool new \<noteq> showCoinTool old
      then implicitCalibration new else new)"

text \<open>\<open>analyzeImage\<close> up to \<open>img.src = src\<close>; the rest runs when the image has loaded.\<close>

definition analyzeImage :: "string \<Rightarrow> App \<Rightarrow> App" where
  "analyzeImage src s = s\<lparr>isAnalyzing := True, pixelsPerMM := None, showCoinTool := False\<rparr>"

definition handleCapture :: "string \<Rightarrow> App \<Rightarrow> App" where
  "handleCapture src s = analyzeImage src (s\<lparr>imageSrc := Some src, appMode := Result\<rparr>)"

text \<open>\<open>img.onload\<close>, first part: \<open>setImageSize\<close>.\<close>

definition onloadSetSize :: "real \<Rightarrow> real \<Rightarrow> App \<Rightarrow> App" where
  "onloadSetSize w h s = s\<lparr>imageSize := \<lparr>widthI = w, heightI = h\<rparr>\<rparr>"

text \<open>
  \<open>img.onload\<close>, second part: the \<open>try\<close>, \<open>catch\<close> and \<open>finally\<close> around the one call of
  \<open>detect\<close>, given what the call returned or threw.
\<close>

definition onloadDetect :: "js_error + DetectionResult \<Rightarrow> App \<Rightarrow> App" where
  "onloadDetect outcome s =
     (case outcome of
        Inr r \<Rightarrow> s\<lparr>measurements := measurementsR r, isAnalyzing := False\<rparr>
      | Inl err \<Rightarrow> s\<lparr>consoleErrors := consoleErrors s @ [''Detection failed:''], isAnalyzing := False\<rparr>)"

definition reset :: "App \<Rightarrow> App" where
  "reset s =
     s\<lparr>imageSrc := None, measurements := [], appMode := Home, pixelsPerMM := None,
       showCoinTool := False\<rparr>"

text \<open>
  The \<open>onCalibrationChange\<close> that \<open>App\<close> passes down; \<open>container\<close> is
  \<open>containerRef.current\<close>, given by its \<open>clientWidth\<close>.
\<close>

definition onCalibrationChange :: "real option \<Rightarrow> real \<Rightarrow> App \<Rightarrow> App" where
  "onCalibrationChange container pxPerMM_Screen s =
     (case container of
        Some renderWidth \<Rightarrow>
          (if 0 < widthI (imageSize s) then
             (let scaleFactor = widthI (imageSize s) / renderWidth;
                  pxPerMM_Image = pxPerMM_Screen * scaleFactor
              in s\<lparr>pixelsPerMM := Some pxPerMM_Image\<rparr>)
           else s\<lparr>pixelsPerMM := Some pxPerMM_Screen\<rparr>)
      | None \<Rightarrow> s\<lparr>pixelsPerMM := Some pxPerMM_Screen\<rparr>)"

text \<open>
  What happens to the controller, each event with the effects that follow its render.
  \<open>CoinTool\<close> is the click on the calibrate button, with the disk and the container at that
  moment: when the tool becomes visible the effect of the disk calls
  \<open>onCalibrationChange\<close>. \<open>CoinResized\<close> is a change of the diameter while the tool is
  shown. \<open>MeasurementsChange\<close> is the overlay's \<open>onMeasurementsChange\<close>.
\<close>

datatype app_event =
  ModelReady "HandLandmarker option"
| Capture string
| ImageLoaded string real real
| Reset
| CoinTool CoinOverlay "real option"
| CoinResized CoinOverlay "real option"
| MeasurementsChange "NailMeasurement list"

fun coinEffect :: "CoinOverlay \<Rightarrow> real option \<Rightarrow> App \<Rightarrow> App" where
  "coinEffect c container s =
     (case coinCalibration (showCoinTool s) c of
        None \<Rightarrow> s
      | Some pxPerMM_Screen \<Rightarrow> onCalibrationChange container pxPerMM_Screen s)"

fun appEvent :: "app_event \<Rightarrow> App \<Rightarrow> App" where
  "appEvent (ModelReady created) s = initLandmarker created s"
| "appEvent (Capture src) s = afterRender False s (handleCapture src s)"
| "appEvent (ImageLoaded src w h) s =
     (let s1 = afterRender False s (onloadSetSize w h s);
          outcome = detect (landmarker s) src
      in afterRender (\<not> isl outcome) s1 (onloadDetect outcome s1))"
| "appEvent Reset s = afterRender True s (reset s)"
| "appEvent (CoinTool c container) s =
     (let s1 = s\<lparr>showCoinTool := \<not> showCoinTool s\<rparr>
      in afterRender False s (coinEffect c container s1))"
| "appEvent (CoinResized c container) s = coinEffect c container s"
| "appEvent (MeasurementsChange newMeasurements) s =
     afterRender True s (s\<lparr>measurements := newMeasurements\<rparr>)"

fun appEvents :: "app_event list \<Rightarrow> App \<Rightarrow> App" where
  "appEvents [] s = s"
| "appEvents (ev # evs) s = appEvents evs (appEvent ev s)"

text \<open>The range of the zoom.\<close>

definition scaleOk :: "Overlay \<Rightarrow> bool" where
  "scaleOk s = (0.5 \<le> scale (transform s) \<and> scale (transform s) \<le> 5)"

subsection \<open>Concrete inputs\<close>

definition rect500 :: DOMRect where
  "rect500 = \<lparr>leftR = 0, topR = 0, widthR = 500, heightR = 400\<rparr>"

definition pointerAt :: "real \<Rightarrow> real \<Rightarrow> Pointer" where
  "pointerAt a b = \<lparr>clientX = a, clientY = b\<rparr>"

definition thumbBox :: NailMeasurement where
  "thumbBox =
     \<lparr>finger = ''Thumb'', widthM = 0.05, lengthM = 0.04,
      boundingBox = \<lparr>x = 0.5, y = 0.5, width = 0.05, height = 0.04, rotation = 0\<rparr>\<rparr>"

definition thinBox :: NailMeasurement where
  "thinBox =
     \<lparr>finger = ''Pinky'', widthM = 0.005, lengthM = 0.005,
      boundingBox = \<lparr>x = 0.5, y = 0.5, width = 0.005, height = 0.005, rotation = 0\<rparr>\<rparr>"

text \<open>The component state after a touch at (100, 100) on the East handle of box 0.\<close>

definition resizingEast :: "NailMeasurement \<Rightarrow> Overlay" where
  "resizingEast m =
     initialOverlay\<lparr>activeId := Some 0, interactionMode := Some ''resize-e'',
                    dragStartRef := \<lparr>x = 100, y = 100\<rparr>,
                    initialMeasurementRef := Some (Snapshot m)\<rparr>"

text \<open>The component state after a touch at (100, 100) on the body of box 0.\<close>

definition draggingBox :: "NailMeasurement \<Rightarrow> Overlay" where
  "draggingBox m =
     initialOverlay\<lparr>activeId := Some 0, interactionMode := Some ''drag'',
                    dragStartRef := \<lparr>x = 100, y = 100\<rparr>,
                    initialMeasurementRef := Some (Snapshot m)\<rparr>"

text \<open>The component state after a pointer-down at (350, 200) on the rotate handle of box 0.\<close>

definition rotatingBox :: "NailMeasurement \<Rightarrow> Overlay" where
  "rotatingBox m =
     initialOverlay\<lparr>activeId := Some 0, interactionMode := Some ''rotate'',
                    dragStartRef := \<lparr>x = 350, y = 200\<rparr>,
                    initialMeasurementRef := Some (Snapshot m)\<rparr>"

text \<open>
  The controller after a detection on an image 4000 by 3000 that found one thumb of
  normalised width 0.05, before the effect has run.
\<close>

definition detected4000 :: App where
  "detected4000 =
     initialApp\<lparr>appMode := Result, imageSrc := Some ''hand.jpg'',
                 imageSize := \<lparr>widthI = 4000, heightI = 3000\<rparr>, isModelLoading := False,
                 measurements := [thumbBox]\<rparr>"

text \<open>A detector that throws on every image.\<close>

definition failingLandmarker :: HandLandmarker where
  "failingLandmarker imageElement = Inl (Error ''detect failed'')"

section \<open>Properties\<close>

subsection \<open>The element a gesture writes\<close>

lemma gestureUpdate_resize_e:
  "gestureUpdate rect e st ''resize-e'' m0 =
     Some (m0\<lparr>boundingBox := (boundingBox m0)
        \<lparr>width := max 0.01 (width (boundingBox m0) + localDx rect e st (rotation (boundingBox m0))),
         height := height (boundingBox m0),
         x := x (boundingBox m0)
                + localDx rect e st (rotation (boundingBox m0)) / 2 * cos (rotation (boundingBox m0)),
         y := y (boundingBox m0)
                + localDx rect e st (rotation (boundingBox m0)) / 2 * sin (rotation (boundingBox m0))\<rparr>\<rparr>)"
  by (simp add: gestureUpdate_def Let_def startsWith_def localDx_def)

lemma gestureUpdate_resize_w:
  "gestureUpdate rect e st ''resize-w'' m0 =
     Some (m0\<lparr>boundingBox := (boundingBox m0)
        \<lparr>width := max 0.01 (width (boundingBox m0) - localDx rect e st (rotation (boundingBox m0))),
         height := height (boundingBox m0),
         x := x (boundingBox m0)
                + localDx rect e st (rotation (boundingBox m0)) / 2 * cos (rotation (boundingBox m0)),
         y := y (boundingBox m0)
                + localDx rect e st (rotation (boundingBox m0)) / 2 * sin (rotation (boundingBox m0))\<rparr>\<rparr>)"
  by (simp add: gestureUpdate_def Let_def startsWith_def localDx_def)

lemma gestureUpdate_rotate:
  "gestureUpdate rect e st ''rotate'' m0 =
     Some (m0\<lparr>boundingBox := (boundingBox m0)
        \<lparr>rotation := rotation (boundingBox m0)
           + (Math_atan2 (clientY e - (topR rect + y (boundingBox m0) * heightR rect))
                         (clientX e - (leftR rect + x (boundingBox m0) * widthR rect))
              - Math_atan2 (y st - (topR rect + y (boundingBox m0) * heightR rect))
                           (x st - (leftR rect + x (boundingBox m0) * widthR rect)))\<rparr>\<rparr>)"
  by (simp add: gestureUpdate_def Let_def)

lemma floor_le_max: "(0.01::real) \<le> max 0.01 v"
  by (rule max.cobounded1)

lemma gestureUpdate_width:
  assumes "gestureUpdate rect e st mode m0 = Some m1"
  shows "width (boundingBox m1) =
     (if mode = ''resize-e''
      then max 0.01 (width (boundingBox m0) + localDx rect e st (rotation (boundingBox m0)))
      else if mode = ''resize-w''
      then max 0.01 (width (boundingBox m0) - localDx rect e st (rotation (boundingBox m0)))
      else width (boundingBox m0))"
  using assms
  by (auto simp: gestureUpdate_def Let_def localDx_def startsWith_def split: if_splits)

lemma gestureUpdate_height:
  assumes "gestureUpdate rect e st mode m0 = Some m1"
  shows "height (boundingBox m1) =
     (if mode = ''resize-s''
      then max 0.01 (height (boundingBox m0) + localDy rect e st (rotation (boundingBox m0)))
      else if mode = ''resize-n''
      then max 0.01 (height (boundingBox m0) - localDy rect e st (rotation (boundingBox m0)))
      else height (boundingBox m0))"
  using assms
  by (auto simp: gestureUpdate_def Let_def localDy_def startsWith_def split: if_splits)

lemma gestureUpdate_resize_Some:
  assumes "mode \<in> {''resize-e'', ''resize-w'', ''resize-n'', ''resize-s''}"
  shows "\<exists>m1. gestureUpdate rect e st mode m0 = Some m1"
  using assms by (auto simp: gestureUpdate_def Let_def startsWith_def)

lemma gestureUpdate_boxOk:
  assumes "gestureUpdate rect e st mode m0 = Some m1" and "boxOk m0"
  shows "boxOk m1"
proof -
  have w: "0.01 \<le> width (boundingBox m1)"
    unfolding gestureUpdate_width [OF assms(1)]
    using assms(2) floor_le_max by (simp only: boxOk_def split: if_split) blast
  have h: "0.01 \<le> height (boundingBox m1)"
    unfolding gestureUpdate_height [OF assms(1)]
    using assms(2) floor_le_max by (simp only: boxOk_def split: if_split) blast
  from w h show ?thesis by (simp only: boxOk_def)
qed

subsection \<open>The touch handlers on a run of events\<close>

lemma handleTouchMove_edit:
  assumes "\<not> isPanning s" and "length (t # ts) \<noteq> 2" and "activeId s = Some i"
    and "interactionMode s = Some mode" and "mode \<noteq> []"
    and "initialMeasurementRef s = Some (Snapshot m0)" and "i < length ms"
    and "gestureUpdate rect t (dragStartRef s) mode m0 = Some m1"
  shows "handleTouchMove (Some rect) (t # ts) ms s = Inr (s, Some (ms[i := m1]))"
  using assms by (simp add: handleTouchMove_def falsyMode_def assignAt_def)

lemma list_all_update: "list_all P xs \<Longrightarrow> P v \<Longrightarrow> list_all P (xs[i := v])"
  by (induction xs arbitrary: i) (auto split: nat.splits)

lemma touchStart_inv:
  assumes "overlayInv (s, ms)" and "eventOk (length ms) (TouchStart touches index mode)"
  shows "\<exists>s'. handleTouchStart touches index mode ms s = Inr s' \<and> overlayInv (s', ms)"
proof (cases "length touches = 2")
  case True
  with assms show ?thesis
    by (simp add: handleTouchStart_def overlayInv_def)
next
  case False
  from assms(2) obtain t ts where tt: "touches = t # ts" by (cases touches) auto
  show ?thesis
  proof (cases index)
    case None
    with False tt assms show ?thesis
      by (simp add: handleTouchStart_def overlayInv_def)
  next
    case (Some i)
    with assms(2) have "i < length ms" by simp
    with Some False tt assms(1) show ?thesis
      by (simp add: handleTouchStart_def overlayInv_def takeSnapshot_def list_all_length)
  qed
qed

lemma touchMove_inv:
  assumes "overlayInv (s, ms)" and "eventOk (length ms) (TouchMove container touches)"
  shows "\<exists>s' pub. handleTouchMove container touches ms s = Inr (s', pub)
           \<and> overlayInv (s', case pub of None \<Rightarrow> ms | Some new \<Rightarrow> new)
           \<and> length (case pub of None \<Rightarrow> ms | Some new \<Rightarrow> new) = length ms"
proof -
  from assms(2) obtain t ts where tt: "touches = t # ts" by (cases touches) auto
  consider (pinch) "length touches = 2"
    | (pan) "length touches \<noteq> 2" "isPanning s"
    | (idle) "length touches \<noteq> 2" "\<not> isPanning s"
        "activeId s = None \<or> interactionMode s = None \<or> interactionMode s = Some []
           \<or> container = None \<or> initialMeasurementRef s = None"
    | (edit) i mode rect m0 where "length touches \<noteq> 2" "\<not> isPanning s" "activeId s = Some i"
        "interactionMode s = Some mode" "mode \<noteq> []" "container = Some rect"
        "initialMeasurementRef s = Some (Snapshot m0)"
  proof (cases "length touches = 2 \<or> isPanning s \<or> activeId s = None \<or> interactionMode s = None
      \<or> interactionMode s = Some [] \<or> container = None \<or> initialMeasurementRef s = None")
    case True
    then show ?thesis using pinch pan idle by blast
  next
    case False
    then obtain i mode rect snap where *: "activeId s = Some i" "interactionMode s = Some mode"
        "mode \<noteq> []" "container = Some rect" "initialMeasurementRef s = Some snap"
      by auto
    with assms(1) obtain m0 where "snap = Snapshot m0"
      by (cases snap) (simp_all add: overlayInv_def)
    with * False show ?thesis using edit by blast
  qed
  then show ?thesis
  proof cases
    case pinch
    with assms(1) show ?thesis
      by (auto simp: handleTouchMove_def overlayInv_def Let_def split: option.splits)
  next
    case pan
    with assms(1) tt show ?thesis
      by (auto simp: handleTouchMove_def overlayInv_def Let_def split: option.splits)
  next
    case idle
    with assms(1) tt show ?thesis
      by (auto simp: handleTouchMove_def overlayInv_def falsyMode_def
          split: option.splits snapshot.splits)
  next
    case edit
    from assms(1) edit have i: "i < length ms" and ok0: "boxOk m0" and all: "list_all boxOk ms"
      by (simp_all add: overlayInv_def)
    show ?thesis
    proof (cases "gestureUpdate rect t (dragStartRef s) mode m0")
      case None
      with edit tt assms(1) show ?thesis
        by (simp add: handleTouchMove_def falsyMode_def overlayInv_def)
    next
      case (Some m1)
      have "handleTouchMove (Some rect) (t # ts) ms s = Inr (s, Some (ms[i := m1]))"
        using edit tt i Some by (intro handleTouchMove_edit) simp_all
      moreover have "boxOk m1" using Some ok0 by (rule gestureUpdate_boxOk)
      ultimately show ?thesis
        using edit tt i all assms(1) by (simp add: overlayInv_def list_all_update)
    qed
  qed
qed

lemma touchEvent_inv:
  assumes "overlayInv st" and "eventOk (length (snd st)) ev"
  shows "\<exists>st'. touchEvent ev st = Inr st' \<and> overlayInv st' \<and> length (snd st') = length (snd st)"
proof (cases st)
  case (Pair s ms)
  show ?thesis
  proof (cases ev)
    case (TouchStart touches index mode)
    with assms Pair touchStart_inv [of s ms touches index mode] show ?thesis by auto
  next
    case (TouchMove container touches)
    with assms Pair touchMove_inv [of s ms container touches] show ?thesis by auto
  next
    case TouchEnd
    with assms Pair show ?thesis by (simp add: handleTouchEnd_def overlayInv_def)
  qed
qed

lemma touchEvents_inv:
  assumes "overlayInv st" and "list_all (eventOk (length (snd st))) evs"
  shows "\<exists>st'. touchEvents evs st = Inr st' \<and> overlayInv st'"
  using assms
proof (induction evs arbitrary: st)
  case Nil
  then show ?case by simp
next
  case (Cons ev evs)
  from Cons.prems obtain st1 where 1: "touchEvent ev st = Inr st1" "overlayInv st1"
      "length (snd st1) = length (snd st)"
    using touchEvent_inv [of st ev] by auto
  with Cons.prems have "list_all (eventOk (length (snd st1))) evs" by simp
  from Cons.IH [OF 1(2) this] 1(1) show ?case by simp
qed

lemma resize_update:
  assumes mode: "mode \<in> {''resize-e'', ''resize-w'', ''resize-n'', ''resize-s''}"
    and s: "\<not> isPanning s" "length (t # ts) \<noteq> 2" "activeId s = Some i"
      "interactionMode s = Some mode" "initialMeasurementRef s = Some (Snapshot m0)"
    and i: "i < length ms"
  shows "\<exists>m1. handleTouchMove (Some rect) (t # ts) ms s = Inr (s, Some (ms[i := m1]))
           \<and> width (boundingBox m1) =
               (if mode = ''resize-e''
                then max 0.01 (width (boundingBox m0)
                                + localDx rect t (dragStartRef s) (rotation (boundingBox m0)))
                else if mode = ''resize-w''
                then max 0.01 (width (boundingBox m0)
                                - localDx rect t (dragStartRef s) (rotation (boundingBox m0)))
                else width (boundingBox m0))
           \<and> height (boundingBox m1) =
               (if mode = ''resize-s''
                then max 0.01 (height (boundingBox m0)
                                + localDy rect t (dragStartRef s) (rotation (boundingBox m0)))
                else if mode = ''resize-n''
                then max 0.01 (height (boundingBox m0)
                                - localDy rect t (dragStartRef s) (rotation (boundingBox m0)))
                else height (boundingBox m0))"
proof -
  from gestureUpdate_resize_Some [OF mode]
  obtain m1 where m1: "gestureUpdate rect t (dragStartRef s) mode m0 = Some m1" by blast
  from mode have ne: "mode \<noteq> []" by auto
  have "handleTouchMove (Some rect) (t # ts) ms s = Inr (s, Some (ms[i := m1]))"
    using s(1-4) ne s(5) i m1 by (rule handleTouchMove_edit)
  with gestureUpdate_width [OF m1] gestureUpdate_height [OF m1] show ?thesis by blast
qed

text \<open>
  C1, as the code has it. A resize update of the touch handler publishes the list with
  the active box replaced. The dimension that the handle edits is
  \<open>max 0.01 (snapshot dimension \<plusminus> local delta)\<close>, so it is at least 0.01 and equals 0.01
  when the edit would go below; the other dimension is the one of the snapshot, whatever
  it is. Hence both dimensions are at least 0.01 when the snapshot's are, and a run of
  touch events (starts, moves, ends, in any order and any mode) on boxes that all respect
  the floor ends, without an exception, on boxes that all respect it.
\<close>

theorem resize_floor:
  "(mode \<in> {''resize-e'', ''resize-w'', ''resize-n'', ''resize-s''} \<and> rectOk rect
      \<and> \<not> isPanning s \<and> length (t # ts) \<noteq> 2 \<and> activeId s = Some i
      \<and> interactionMode s = Some mode \<and> initialMeasurementRef s = Some (Snapshot m0)
      \<and> i < length ms
    \<longrightarrow> (\<exists>m1. handleTouchMove (Some rect) (t # ts) ms s = Inr (s, Some (ms[i := m1]))
          \<and> (if mode \<in> {''resize-e'', ''resize-w''}
             then 0.01 \<le> width (boundingBox m1)
                  \<and> width (boundingBox m1) =
                      max 0.01 (width (boundingBox m0)
                        + (if mode = ''resize-e'' then 1 else - 1)
                          * localDx rect t (dragStartRef s) (rotation (boundingBox m0)))
                  \<and> height (boundingBox m1) = height (boundingBox m0)
             else 0.01 \<le> height (boundingBox m1)
                  \<and> height (boundingBox m1) =
                      max 0.01 (height (boundingBox m0)
                        + (if mode = ''resize-s'' then 1 else - 1)
                          * localDy rect t (dragStartRef s) (rotation (boundingBox m0)))
                  \<and> width (boundingBox m1) = width (boundingBox m0))
          \<and> (boxOk m0 \<longrightarrow> boxOk m1)))
   \<and> (overlayInv st \<and> list_all (eventOk (length (snd st))) evs
    \<longrightarrow> (\<exists>st'. touchEvents evs st = Inr st' \<and> overlayInv st'))"
proof (intro conjI impI)
  assume a: "mode \<in> {''resize-e'', ''resize-w'', ''resize-n'', ''resize-s''} \<and> rectOk rect
      \<and> \<not> isPanning s \<and> length (t # ts) \<noteq> 2 \<and> activeId s = Some i
      \<and> interactionMode s = Some mode \<and> initialMeasurementRef s = Some (Snapshot m0)
      \<and> i < length ms"
  then have mode: "mode \<in> {''resize-e'', ''resize-w'', ''resize-n'', ''resize-s''}" by blast
  from a resize_update [of mode s t ts i m0 ms rect]
  obtain m1 where m1: "handleTouchMove (Some rect) (t # ts) ms s = Inr (s, Some (ms[i := m1]))"
    and w: "width (boundingBox m1) =
               (if mode = ''resize-e''
                then max 0.01 (width (boundingBox m0)
                                + localDx rect t (dragStartRef s) (rotation (boundingBox m0)))
                else if mode = ''resize-w''
                then max 0.01 (width (boundingBox m0)
                                - localDx rect t (dragStartRef s) (rotation (boundingBox m0)))
                else width (boundingBox m0))"
    and h: "height (boundingBox m1) =
               (if mode = ''resize-s''
                then max 0.01 (height (boundingBox m0)
                                + localDy rect t (dragStartRef s) (rotation (boundingBox m0)))
                else if mode = ''resize-n''
                then max 0.01 (height (boundingBox m0)
                                - localDy rect t (dragStartRef s) (rotation (boundingBox m0)))
                else height (boundingBox m0))"
    by blast
  have dims: "if mode \<in> {''resize-e'', ''resize-w''}
             then 0.01 \<le> width (boundingBox m1)
                  \<and> width (boundingBox m1) =
                      max 0.01 (width (boundingBox m0)
                        + (if mode = ''resize-e'' then 1 else - 1)
                          * localDx rect t (dragStartRef s) (rotation (boundingBox m0)))
                  \<and> height (boundingBox m1) = height (boundingBox m0)
             else 0.01 \<le> height (boundingBox m1)
                  \<and> height (boundingBox m1) =
                      max 0.01 (height (boundingBox m0)
                        + (if mode = ''resize-s'' then 1 else - 1)
                          * localDy rect t (dragStartRef s) (rotation (boundingBox m0)))
                  \<and> width (boundingBox m1) = width (boundingBox m0)"
  proof -
    consider "mode = ''resize-e''" | "mode = ''resize-w''" | "mode = ''resize-n''" | "mode = ''resize-s''"
      using mode by blast
    then show ?thesis
    proof cases
      case 1
      with w h floor_le_max show ?thesis by simp
    next
      case 2
      with w h floor_le_max show ?thesis by simp
    next
      case 3
      with w h floor_le_max show ?thesis by simp
    next
      case 4
      with w h floor_le_max show ?thesis by simp
    qed
  qed
  have ok: "boxOk m0 \<longrightarrow> boxOk m1"
  proof
    assume "boxOk m0"
    then have m0: "0.01 \<le> width (boundingBox m0)" "0.01 \<le> height (boundingBox m0)"
      by (simp_all only: boxOk_def)
    from dims have "(0.01 \<le> width (boundingBox m1) \<and> height (boundingBox m1) = height (boundingBox m0))
        \<or> (0.01 \<le> height (boundingBox m1) \<and> width (boundingBox m1) = width (boundingBox m0))"
      by (simp split: if_splits)
    with m0 have "0.01 \<le> width (boundingBox m1) \<and> 0.01 \<le> height (boundingBox m1)"
      by metis
    then show "boxOk m1"
      by (simp only: boxOk_def)
  qed
  from m1 dims ok
  show "\<exists>m1. handleTouchMove (Some rect) (t # ts) ms s = Inr (s, Some (ms[i := m1]))
          \<and> (if mode \<in> {''resize-e'', ''resize-w''}
             then 0.01 \<le> width (boundingBox m1)
                  \<and> width (boundingBox m1) =
                      max 0.01 (width (boundingBox m0)
                        + (if mode = ''resize-e'' then 1 else - 1)
                          * localDx rect t (dragStartRef s) (rotation (boundingBox m0)))
                  \<and> height (boundingBox m1) = height (boundingBox m0)
             else 0.01 \<le> height (boundingBox m1)
                  \<and> height (boundingBox m1) =
                      max 0.01 (height (boundingBox m0)
                        + (if mode = ''resize-s'' then 1 else - 1)
                          * localDy rect t (dragStartRef s) (rotation (boundingBox m0)))
                  \<and> width (boundingBox m1) = width (boundingBox m0))
          \<and> (boxOk m0 \<longrightarrow> boxOk m1)"
    by blast
next
  assume "overlayInv st \<and> list_all (eventOk (length (snd st))) evs"
  then show "\<exists>st'. touchEvents evs st = Inr st' \<and> overlayInv st'"
    using touchEvents_inv by blast
qed

theorem resize_floor_witness:
  "(\<exists>m1. handleTouchMove (Some rect500) [pointerAt 150 100] [thumbBox] (resizingEast thumbBox)
            = Inr (resizingEast thumbBox, Some [m1])
        \<and> 0.01 \<le> width (boundingBox m1) \<and> height (boundingBox m1) = 0.04 \<and> boxOk m1)
   \<and> (\<exists>st'. touchEvents [TouchStart [pointerAt 100 100] (Some 0) ''resize-e'',
                           TouchMove (Some rect500) [pointerAt 40 100], TouchEnd]
                (initialOverlay, [thumbBox]) = Inr st'
          \<and> overlayInv st')"
proof -
  have ok: "boxOk thumbBox"
    by (simp add: boxOk_def thumbBox_def)
  have h1: "''resize-e'' \<in> {''resize-e'', ''resize-w'', ''resize-n'', ''resize-s''} \<and> rectOk rect500
      \<and> \<not> isPanning (resizingEast thumbBox) \<and> length (pointerAt 150 100 # []) \<noteq> 2
      \<and> activeId (resizingEast thumbBox) = Some 0
      \<and> interactionMode (resizingEast thumbBox) = Some ''resize-e''
      \<and> initialMeasurementRef (resizingEast thumbBox) = Some (Snapshot thumbBox)
      \<and> 0 < length [thumbBox]"
    by (simp add: rectOk_def rect500_def resizingEast_def initialOverlay_def)
  have h2: "overlayInv (initialOverlay, [thumbBox])
      \<and> list_all (eventOk (length (snd (initialOverlay, [thumbBox]))))
           [TouchStart [pointerAt 100 100] (Some 0) ''resize-e'',
            TouchMove (Some rect500) [pointerAt 40 100], TouchEnd]"
    using ok by (simp add: overlayInv_def initialOverlay_def rectOk_def rect500_def)
  note inst = resize_floor [where mode = "''resize-e''" and rect = rect500
      and s = "resizingEast thumbBox" and t = "pointerAt 150 100" and ts = "[]" and i = 0
      and ?m0.0 = thumbBox and ms = "[thumbBox]" and st = "(initialOverlay, [thumbBox])"
      and evs = "[TouchStart [pointerAt 100 100] (Some 0) ''resize-e'',
                  TouchMove (Some rect500) [pointerAt 40 100], TouchEnd]"]
  from inst h1 h2 ok have
    a: "\<exists>m1. handleTouchMove (Some rect500) [pointerAt 150 100] [thumbBox] (resizingEast thumbBox)
            = Inr (resizingEast thumbBox, Some ([thumbBox][0 := m1]))
        \<and> 0.01 \<le> width (boundingBox m1) \<and> height (boundingBox m1) = height (boundingBox thumbBox) \<and> boxOk m1"
    and b: "\<exists>st'. touchEvents [TouchStart [pointerAt 100 100] (Some 0) ''resize-e'',
                           TouchMove (Some rect500) [pointerAt 40 100], TouchEnd]
                (initialOverlay, [thumbBox]) = Inr st' \<and> overlayInv st'"
    by auto
  have "height (boundingBox thumbBox) = 0.04" by (simp add: thumbBox_def)
  with a b show ?thesis by simp
qed

text \<open>
  The claim as stated fails on a box whose height is below the floor, which nothing
  excludes (the detector sizes a box from the landmarks and clamps nothing): an East
  resize clamps the width only.
\<close>

theorem resize_floor_counterexample:
  "touchEvents [TouchStart [pointerAt 100 100] (Some 0) ''resize-e'',
                TouchMove (Some rect500) [pointerAt 150 100]]
          (initialOverlay, [thinBox])
      = Inr (resizingEast thinBox,
             [thinBox\<lparr>boundingBox := \<lparr>x = 0.55, y = 0.5, width = 0.105, height = 0.005, rotation = 0\<rparr>\<rparr>])
   \<and> \<not> boxOk (thinBox\<lparr>boundingBox := \<lparr>x = 0.55, y = 0.5, width = 0.105, height = 0.005, rotation = 0\<rparr>\<rparr>)"
  by (simp add: handleTouchStart_def handleTouchMove_def initialOverlay_def thinBox_def rect500_def
      pointerAt_def takeSnapshot_def falsyMode_def gestureUpdate_def Let_def startsWith_def assignAt_def
      resizingEast_def boxOk_def)

subsection \<open>East, then West\<close>

lemma touch_gesture:
  assumes "\<not> isPanning s" and "i < length ms" and "mode \<noteq> []"
    and "gestureUpdate rect p1 \<lparr>x = clientX p0, y = clientY p0\<rparr> mode (ms ! i) = Some m1"
  shows "\<exists>s'. touchEvents [TouchStart [p0] (Some i) mode, TouchMove (Some rect) [p1], TouchEnd] (s, ms)
            = Inr (s', ms[i := m1]) \<and> \<not> isPanning s'"
proof -
  let ?s1 = "s\<lparr>activeId := Some i, interactionMode := Some mode,
                dragStartRef := \<lparr>x = clientX p0, y = clientY p0\<rparr>,
                initialMeasurementRef := Some (takeSnapshot ms i)\<rparr>"
  have 1: "handleTouchStart [p0] (Some i) mode ms s = Inr ?s1"
    by (simp add: handleTouchStart_def)
  have 2: "handleTouchMove (Some rect) (p1 # []) ms ?s1 = Inr (?s1, Some (ms[i := m1]))"
    using assms by (intro handleTouchMove_edit) (simp_all add: takeSnapshot_def)
  from 1 2 assms(1) show ?thesis
    by (simp add: handleTouchEnd_def)
qed

lemma touchEvents_append:
  "touchEvents (as @ bs) st =
     (case touchEvents as st of Inl err \<Rightarrow> Inl err | Inr st' \<Rightarrow> touchEvents bs st')"
  by (induction as arbitrary: st) (simp_all split: sum.splits)

lemma localDx_delta:
  assumes "clientX q1 - clientX q0 = clientX p1 - clientX p0"
    and "clientY q1 - clientY q0 = clientY p1 - clientY p0"
  shows "localDx rect q1 \<lparr>x = clientX q0, y = clientY q0\<rparr> r
       = localDx rect p1 \<lparr>x = clientX p0, y = clientY p0\<rparr> r"
  using assms by (simp add: localDx_def)

text \<open>
  C2, as the code has it. An East resize by a pointer delta followed by a West resize by
  the same delta, each a complete touch gesture (start, move, end) on box \<open>i\<close>, the
  second one starting from the result of the first: when no clamping fires, the width is
  the original width again, and the centre has moved by the local delta \<open>l\<close> along the
  box's own horizontal axis, that is by \<open>l * cos rotation\<close> in x and \<open>l * sin rotation\<close>
  in y. Height and rotation are untouched. The East gesture moves the East edge by \<open>l\<close>
  and the West gesture moves the West edge by \<open>l\<close>: together they translate the box.
\<close>

theorem east_then_west:
  assumes rect: "rectOk rect" and idle: "\<not> isPanning s" and i: "i < length ms"
    and dX: "clientX q1 - clientX q0 = clientX p1 - clientX p0"
    and dY: "clientY q1 - clientY q0 = clientY p1 - clientY p0"
    and l: "l = localDx rect p1 \<lparr>x = clientX p0, y = clientY p0\<rparr> (rotation (boundingBox (ms ! i)))"
    and noclamp: "0.01 \<le> width (boundingBox (ms ! i)) + l" "0.01 \<le> width (boundingBox (ms ! i))"
  shows "\<exists>s' m2.
      touchEvents [TouchStart [p0] (Some i) ''resize-e'', TouchMove (Some rect) [p1], TouchEnd,
                   TouchStart [q0] (Some i) ''resize-w'', TouchMove (Some rect) [q1], TouchEnd] (s, ms)
        = Inr (s', ms[i := m2])
      \<and> width (boundingBox m2) = width (boundingBox (ms ! i))
      \<and> x (boundingBox m2) = x (boundingBox (ms ! i)) + l * cos (rotation (boundingBox (ms ! i)))
      \<and> y (boundingBox m2) = y (boundingBox (ms ! i)) + l * sin (rotation (boundingBox (ms ! i)))
      \<and> height (boundingBox m2) = height (boundingBox (ms ! i))
      \<and> rotation (boundingBox m2) = rotation (boundingBox (ms ! i))"
proof -
  let ?m0 = "ms ! i"
  let ?r = "rotation (boundingBox ?m0)"
  let ?st0 = "\<lparr>x = clientX p0, y = clientY p0\<rparr>"
  let ?st1 = "\<lparr>x = clientX q0, y = clientY q0\<rparr>"
  obtain m1 where m1: "gestureUpdate rect p1 ?st0 ''resize-e'' ?m0 = Some m1"
    by (simp add: gestureUpdate_resize_e)
  have m1_bb: "width (boundingBox m1) = width (boundingBox ?m0) + l"
    "x (boundingBox m1) = x (boundingBox ?m0) + l / 2 * cos ?r"
    "y (boundingBox m1) = y (boundingBox ?m0) + l / 2 * sin ?r"
    "height (boundingBox m1) = height (boundingBox ?m0)"
    "rotation (boundingBox m1) = ?r"
    using m1 noclamp(1) unfolding gestureUpdate_resize_e l by (auto simp: max_def)
  obtain m2 where m2: "gestureUpdate rect q1 ?st1 ''resize-w'' m1 = Some m2"
    by (simp add: gestureUpdate_resize_w)
  have l2: "localDx rect q1 ?st1 (rotation (boundingBox m1)) = l"
    unfolding m1_bb(5) l using dX dY by (rule localDx_delta)
  have m2_bb: "width (boundingBox m2) = width (boundingBox ?m0)"
    "x (boundingBox m2) = x (boundingBox ?m0) + l * cos ?r"
    "y (boundingBox m2) = y (boundingBox ?m0) + l * sin ?r"
    "height (boundingBox m2) = height (boundingBox ?m0)"
    "rotation (boundingBox m2) = ?r"
    using m2 noclamp(2) m1_bb unfolding gestureUpdate_resize_w l2 by (auto simp: max_def)
  from touch_gesture [OF idle i _ m1]
  obtain s1 where s1: "touchEvents [TouchStart [p0] (Some i) ''resize-e'', TouchMove (Some rect) [p1], TouchEnd] (s, ms)
            = Inr (s1, ms[i := m1])" "\<not> isPanning s1" by auto
  have i1: "i < length (ms[i := m1])" using i by simp
  have "gestureUpdate rect q1 ?st1 ''resize-w'' (ms[i := m1] ! i) = Some m2"
    using m2 i by simp
  from touch_gesture [OF s1(2) i1 _ this]
  obtain s2 where s2: "touchEvents [TouchStart [q0] (Some i) ''resize-w'', TouchMove (Some rect) [q1], TouchEnd] (s1, ms[i := m1])
            = Inr (s2, ms[i := m2])" by auto
  have "touchEvents ([TouchStart [p0] (Some i) ''resize-e'', TouchMove (Some rect) [p1], TouchEnd] @
                   [TouchStart [q0] (Some i) ''resize-w'', TouchMove (Some rect) [q1], TouchEnd]) (s, ms)
        = Inr (s2, ms[i := m2])"
    using s1(1) s2 by (simp only: touchEvents_append sum.case)
  then have "touchEvents [TouchStart [p0] (Some i) ''resize-e'', TouchMove (Some rect) [p1], TouchEnd,
                   TouchStart [q0] (Some i) ''resize-w'', TouchMove (Some rect) [q1], TouchEnd] (s, ms)
        = Inr (s2, ms[i := m2])"
    by (simp only: append.simps)
  with m2_bb show ?thesis by blast
qed


theorem east_then_west_witness:
  "\<exists>s' m2.
      touchEvents [TouchStart [pointerAt 100 100] (Some 0) ''resize-e'',
                   TouchMove (Some rect500) [pointerAt 150 100], TouchEnd,
                   TouchStart [pointerAt 90 100] (Some 0) ''resize-w'',
                   TouchMove (Some rect500) [pointerAt 140 100], TouchEnd] (initialOverlay, [thumbBox])
        = Inr (s', [m2])
      \<and> width (boundingBox m2) = 0.05 \<and> x (boundingBox m2) = 0.6 \<and> y (boundingBox m2) = 0.5"
proof -
  have l: "(0.1::real) = localDx rect500 (pointerAt 150 100)
             \<lparr>x = clientX (pointerAt 100 100), y = clientY (pointerAt 100 100)\<rparr>
             (rotation (boundingBox ([thumbBox] ! 0)))"
    by (simp add: localDx_def rect500_def pointerAt_def thumbBox_def)
  have "\<exists>s' m2.
      touchEvents [TouchStart [pointerAt 100 100] (Some 0) ''resize-e'',
                   TouchMove (Some rect500) [pointerAt 150 100], TouchEnd,
                   TouchStart [pointerAt 90 100] (Some 0) ''resize-w'',
                   TouchMove (Some rect500) [pointerAt 140 100], TouchEnd] (initialOverlay, [thumbBox])
        = Inr (s', [thumbBox][0 := m2])
      \<and> width (boundingBox m2) = width (boundingBox ([thumbBox] ! 0))
      \<and> x (boundingBox m2) =
          x (boundingBox ([thumbBox] ! 0)) + 0.1 * cos (rotation (boundingBox ([thumbBox] ! 0)))
      \<and> y (boundingBox m2) =
          y (boundingBox ([thumbBox] ! 0)) + 0.1 * sin (rotation (boundingBox ([thumbBox] ! 0)))
      \<and> height (boundingBox m2) = height (boundingBox ([thumbBox] ! 0))
      \<and> rotation (boundingBox m2) = rotation (boundingBox ([thumbBox] ! 0))"
  proof (rule east_then_west [OF _ _ _ _ _ l])
    show "rectOk rect500" by (simp add: rectOk_def rect500_def)
    show "\<not> isPanning initialOverlay" by (simp add: initialOverlay_def)
    show "0 < length [thumbBox]" by simp
    show "clientX (pointerAt 140 100) - clientX (pointerAt 90 100)
        = clientX (pointerAt 150 100) - clientX (pointerAt 100 100)"
      by (simp add: pointerAt_def)
    show "clientY (pointerAt 140 100) - clientY (pointerAt 90 100)
        = clientY (pointerAt 150 100) - clientY (pointerAt 100 100)"
      by (simp add: pointerAt_def)
    show "0.01 \<le> width (boundingBox ([thumbBox] ! 0)) + 0.1" by (simp add: thumbBox_def)
    show "0.01 \<le> width (boundingBox ([thumbBox] ! 0))" by (simp add: thumbBox_def)
  qed
  then obtain s' m2 where r:
      "touchEvents [TouchStart [pointerAt 100 100] (Some 0) ''resize-e'',
                   TouchMove (Some rect500) [pointerAt 150 100], TouchEnd,
                   TouchStart [pointerAt 90 100] (Some 0) ''resize-w'',
                   TouchMove (Some rect500) [pointerAt 140 100], TouchEnd] (initialOverlay, [thumbBox])
        = Inr (s', [thumbBox][0 := m2])"
      "width (boundingBox m2) = width (boundingBox ([thumbBox] ! 0))"
      "x (boundingBox m2) =
          x (boundingBox ([thumbBox] ! 0)) + 0.1 * cos (rotation (boundingBox ([thumbBox] ! 0)))"
      "y (boundingBox m2) =
          y (boundingBox ([thumbBox] ! 0)) + 0.1 * sin (rotation (boundingBox ([thumbBox] ! 0)))"
    by blast
  have upd: "[thumbBox][0 := m2] = [m2]" by simp
  have w: "width (boundingBox m2) = 0.05" using r(2) by (simp add: thumbBox_def)
  have cx: "x (boundingBox m2) = 0.6" using r(3) by (simp add: thumbBox_def)
  have cy: "y (boundingBox m2) = 0.5" using r(4) by (simp add: thumbBox_def)
  from r(1) upd w cx cy show ?thesis by metis
qed

text \<open>
  The claim as stated fails without rotation already: a drag of 50 pixels in a container
  500 pixels wide, East then West, brings the width back to 0.05 and the centre from
  0.5 to 0.6.
\<close>

theorem east_then_west_counterexample:
  "map_sum id snd
     (touchEvents [TouchStart [pointerAt 100 100] (Some 0) ''resize-e'',
                   TouchMove (Some rect500) [pointerAt 150 100], TouchEnd,
                   TouchStart [pointerAt 90 100] (Some 0) ''resize-w'',
                   TouchMove (Some rect500) [pointerAt 140 100], TouchEnd] (initialOverlay, [thumbBox]))
     = Inr [thumbBox\<lparr>boundingBox := \<lparr>x = 0.6, y = 0.5, width = 0.05, height = 0.04, rotation = 0\<rparr>\<rparr>]
   \<and> x (boundingBox thumbBox) = 0.5 \<and> width (boundingBox thumbBox) = 0.05"
  by (simp add: handleTouchStart_def handleTouchMove_def handleTouchEnd_def initialOverlay_def
      thumbBox_def rect500_def pointerAt_def takeSnapshot_def falsyMode_def gestureUpdate_def Let_def
      startsWith_def assignAt_def)

subsection \<open>Zoom\<close>

lemma Math_hypot_zero: "Math_hypot a 0 = \<bar>a\<bar>"
  by (simp add: Math_hypot_def)

lemma clamp_range: "(0.5::real) \<le> min (max 0.5 v) 5 \<and> min (max 0.5 v) 5 \<le> 5"
  by (simp add: min_def max_def)

lemma handleWheel_range:
  "0.5 \<le> scale (transform (handleWheel deltaY s)) \<and> scale (transform (handleWheel deltaY s)) \<le> 5"
  using clamp_range by (simp add: handleWheel_def Let_def)

lemma pinch_update:
  assumes "length touches = 2"
  shows "handleTouchMove container touches ms s =
     Inr (if 0 < pinchStartDistRef s \<and> 0 < getPinchDist touches
          then s\<lparr>transform := (transform s)
                  \<lparr>scale := min (max 0.5 (pinchStartScaleRef s * getPinchDist touches
                                             / pinchStartDistRef s)) 5\<rparr>\<rparr>
          else s, None)"
  using assms by (simp add: handleTouchMove_def Let_def)

text \<open>
  The scale is in [0.5, 5] on mount and every handler of the overlay keeps it there, so
  it is there whenever a pinch update does nothing. The distance of a pinch is never
  negative.
\<close>

lemma getPinchDist_nonneg: "0 \<le> getPinchDist touches"
  by (simp add: getPinchDist_def Math_hypot_def Let_def)

lemma scaleOk_initial: "scaleOk initialOverlay"
  by (simp add: scaleOk_def initialOverlay_def)

lemma scaleOk_wheel: "scaleOk (handleWheel deltaY s)"
  using handleWheel_range by (simp only: scaleOk_def)

lemma scaleOk_buttons:
  assumes "scaleOk s"
  shows "scaleOk (zoomOutClick s)" and "scaleOk (zoomInClick s)" and "scaleOk (resetClick s)"
  using assms
  by (simp_all add: scaleOk_def zoomOutClick_def zoomInClick_def resetClick_def min_def max_def)

lemma scaleOk_touchMove:
  assumes "handleTouchMove container touches ms s = Inr (s', pub)" and "scaleOk s"
  shows "scaleOk s'"
proof (cases "length touches = 2")
  case True
  let ?v = "pinchStartScaleRef s * getPinchDist touches / pinchStartDistRef s"
  from assms(1) pinch_update [OF True, of container ms s]
  have "s' = s \<or> s' = s\<lparr>transform := (transform s)\<lparr>scale := min (max 0.5 ?v) 5\<rparr>\<rparr>"
    by (auto split: if_splits)
  then show ?thesis
  proof
    assume "s' = s"
    with assms(2) show ?thesis by simp
  next
    assume "s' = s\<lparr>transform := (transform s)\<lparr>scale := min (max 0.5 ?v) 5\<rparr>\<rparr>"
    then have "scale (transform s') = min (max 0.5 ?v) 5" by simp
    with clamp_range [of ?v] show ?thesis by (simp only: scaleOk_def)
  qed
next
  case False
  with assms show ?thesis
    by (auto simp: handleTouchMove_def scaleOk_def Let_def
        split: if_splits list.splits option.splits snapshot.splits sum.splits)
qed

lemma scaleOk_touchEvent:
  assumes "touchEvent ev (s, ms) = Inr (s', ms')" and "scaleOk s"
  shows "scaleOk s'"
proof (cases ev)
  case (TouchStart touches index mode)
  with assms show ?thesis
    by (auto simp: handleTouchStart_def scaleOk_def split: if_splits list.splits option.splits sum.splits)
next
  case (TouchMove container touches)
  with assms obtain pub where "handleTouchMove container touches ms s = Inr (s', pub)"
    by (auto split: sum.splits)
  with assms(2) show ?thesis by (rule scaleOk_touchMove [rotated])
next
  case TouchEnd
  with assms show ?thesis by (auto simp: handleTouchEnd_def scaleOk_def)
qed

lemma scaleOk_mouseEvent:
  assumes "mouseEvent ev (s, ms) = Inr (s', ms')" and "scaleOk s"
  shows "scaleOk s'"
proof (cases ev)
  case (MouseDown e index mode)
  with assms show ?thesis
    by (auto simp: handleMouseDown_def scaleOk_def split: option.splits)
next
  case (MouseMove container e)
  with assms show ?thesis
    by (auto simp: handleMouseMove_def scaleOk_def Let_def
        split: if_splits option.splits snapshot.splits sum.splits)
next
  case MouseUp
  with assms show ?thesis by (auto simp: handleMouseUp_def scaleOk_def)
qed

text \<open>
  C3. A wheel event leaves the scale in [0.5, 5] whatever its delta and whatever the scale
  was. A move event with two touches never publishes boxes; when the distance stored at the
  start of the pinch and the current distance are both positive it sets the scale to
  \<open>min (max 0.5 (startScale * currentDistance / startDistance)) 5\<close>, which lies in
  [0.5, 5]; when either is zero or negative it changes nothing, so the scale stays in
  [0.5, 5] if it was there.
\<close>

theorem zoom_scale_range:
  "(0.5 \<le> scale (transform (handleWheel deltaY s)) \<and> scale (transform (handleWheel deltaY s)) \<le> 5)
   \<and> (length touches = 2 \<longrightarrow>
        (\<exists>s'. handleTouchMove container touches ms s = Inr (s', None)
           \<and> (if 0 < pinchStartDistRef s \<and> 0 < getPinchDist touches
              then s' = s\<lparr>transform := (transform s)
                           \<lparr>scale := min (max 0.5 (pinchStartScaleRef s * getPinchDist touches
                                                      / pinchStartDistRef s)) 5\<rparr>\<rparr>
                   \<and> 0.5 \<le> scale (transform s') \<and> scale (transform s') \<le> 5
              else s' = s)
           \<and> (0.5 \<le> scale (transform s) \<and> scale (transform s) \<le> 5
                \<longrightarrow> 0.5 \<le> scale (transform s') \<and> scale (transform s') \<le> 5)))"
proof (intro conjI impI)
  show "0.5 \<le> scale (transform (handleWheel deltaY s))"
    and "scale (transform (handleWheel deltaY s)) \<le> 5"
    using handleWheel_range by blast+
next
  assume two: "length touches = 2"
  let ?v = "pinchStartScaleRef s * getPinchDist touches / pinchStartDistRef s"
  let ?s' = "if 0 < pinchStartDistRef s \<and> 0 < getPinchDist touches
          then s\<lparr>transform := (transform s)\<lparr>scale := min (max 0.5 ?v) 5\<rparr>\<rparr> else s"
  have 1: "handleTouchMove container touches ms s = Inr (?s', None)"
    using two by (rule pinch_update)
  have 2: "if 0 < pinchStartDistRef s \<and> 0 < getPinchDist touches
              then ?s' = s\<lparr>transform := (transform s)\<lparr>scale := min (max 0.5 ?v) 5\<rparr>\<rparr>
                   \<and> 0.5 \<le> scale (transform ?s') \<and> scale (transform ?s') \<le> 5
              else ?s' = s"
    using clamp_range [of ?v] by simp
  have 3: "0.5 \<le> scale (transform s) \<and> scale (transform s) \<le> 5
                \<longrightarrow> 0.5 \<le> scale (transform ?s') \<and> scale (transform ?s') \<le> 5"
  proof (cases "0 < pinchStartDistRef s \<and> 0 < getPinchDist touches")
    case True
    then have "?s' = s\<lparr>transform := (transform s)\<lparr>scale := min (max 0.5 ?v) 5\<rparr>\<rparr>"
      by (rule if_P)
    moreover have "0.5 \<le> scale (transform (s\<lparr>transform := (transform s)\<lparr>scale := min (max 0.5 ?v) 5\<rparr>\<rparr>))
        \<and> scale (transform (s\<lparr>transform := (transform s)\<lparr>scale := min (max 0.5 ?v) 5\<rparr>\<rparr>)) \<le> 5"
      using clamp_range [of ?v] by simp
    ultimately show ?thesis by (simp only: simp_thms)
  next
    case False
    then have "?s' = s" by (rule if_not_P)
    then show ?thesis by (simp only: simp_thms)
  qed
  from 1 2 3
  show "\<exists>s'. handleTouchMove container touches ms s = Inr (s', None)
           \<and> (if 0 < pinchStartDistRef s \<and> 0 < getPinchDist touches
              then s' = s\<lparr>transform := (transform s)\<lparr>scale := min (max 0.5 ?v) 5\<rparr>\<rparr>
                   \<and> 0.5 \<le> scale (transform s') \<and> scale (transform s') \<le> 5
              else s' = s)
           \<and> (0.5 \<le> scale (transform s) \<and> scale (transform s) \<le> 5
                \<longrightarrow> 0.5 \<le> scale (transform s') \<and> scale (transform s') \<le> 5)"
    by blast
qed

theorem zoom_scale_range_witness:
  "handleTouchMove None [pointerAt 0 0, pointerAt 1000 0] [] (initialOverlay\<lparr>pinchStartDistRef := 100\<rparr>)
     = Inr (initialOverlay\<lparr>pinchStartDistRef := 100, transform := \<lparr>x = 0, y = 0, scale = 5\<rparr>\<rparr>, None)
   \<and> handleTouchMove None [pointerAt 0 0, pointerAt 1000 0] [] initialOverlay = Inr (initialOverlay, None)"
proof -
  have d: "getPinchDist [pointerAt 0 0, pointerAt 1000 0] = 1000"
    by (simp add: getPinchDist_def pointerAt_def Math_hypot_zero)
  have two: "length [pointerAt 0 0, pointerAt 1000 0] = 2" by simp
  from zoom_scale_range [where touches = "[pointerAt 0 0, pointerAt 1000 0]" and container = None
      and ms = "[]" and s = "initialOverlay\<lparr>pinchStartDistRef := 100\<rparr>"] two d
  have a: "handleTouchMove None [pointerAt 0 0, pointerAt 1000 0] [] (initialOverlay\<lparr>pinchStartDistRef := 100\<rparr>)
     = Inr (initialOverlay\<lparr>pinchStartDistRef := 100, transform := \<lparr>x = 0, y = 0, scale = 5\<rparr>\<rparr>, None)"
    by (auto simp: initialOverlay_def)
  from zoom_scale_range [where touches = "[pointerAt 0 0, pointerAt 1000 0]" and container = None
      and ms = "[]" and s = initialOverlay] two d
  have b: "handleTouchMove None [pointerAt 0 0, pointerAt 1000 0] [] initialOverlay = Inr (initialOverlay, None)"
    by (auto simp: initialOverlay_def)
  from a b show ?thesis by blast
qed

subsection \<open>A second touch\<close>

lemma second_touch:
  assumes "length touches = 2"
  shows "handleTouchStart touches index mode ms s =
     Inr (s\<lparr>pinchStartDistRef := getPinchDist touches,
            pinchStartScaleRef := scale (transform s),
            isPanning := False, activeId := None, interactionMode := None\<rparr>)"
  using assms by (simp add: handleTouchStart_def)

lemma no_gesture_move:
  assumes "\<not> isPanning s" and "activeId s = None"
  shows "\<exists>s'. handleTouchMove container moved ms s = Inr (s', None)
           \<and> (length moved \<noteq> 2 \<longrightarrow> s' = s) \<and> \<not> isPanning s' \<and> activeId s' = None
           \<and> x (transform s') = x (transform s) \<and> y (transform s') = y (transform s)"
  using assms by (simp add: handleTouchMove_def Let_def)

lemma touch_move_one_gesture:
  assumes "handleTouchMove container moved ms s = Inr (s', pub)"
  shows "if length moved = 2
         then pub = None \<and> s' = s\<lparr>transform := (transform s)\<lparr>scale := scale (transform s')\<rparr>\<rparr>
         else if isPanning s
         then pub = None
              \<and> s' = s\<lparr>transform := (transform s)\<lparr>x := x (transform s'), y := y (transform s')\<rparr>\<rparr>
         else s' = s"
proof (cases "length moved = 2")
  case True
  with assms show ?thesis
    by (auto simp: handleTouchMove_def Let_def split: if_splits)
next
  case False
  show ?thesis
  proof (cases "isPanning s")
    case True
    with False assms show ?thesis
      by (auto simp: handleTouchMove_def Let_def split: list.splits)
  next
    case np: False
    with False assms show ?thesis
      by (auto simp: handleTouchMove_def Let_def
          split: list.splits option.splits snapshot.splits if_splits sum.splits)
  qed
qed

lemma first_touch:
  assumes "\<not> isPanning s" and "activeId s = None" and "length touches \<noteq> 2" and "touches \<noteq> []"
  shows "\<exists>s'. handleTouchStart touches index mode ms s = Inr s'
           \<and> isPanning s' = (index = None) \<and> activeId s' = index"
  using assms by (cases touches; cases index) (simp_all add: handleTouchStart_def)

text \<open>
  C8, as the code has it. A \<open>touchstart\<close> that carries exactly two touch points clears
  \<open>isPanning\<close>, \<open>activeId\<close> and \<open>interactionMode\<close> whatever they were, stores the current
  scale and the distance between the two touches, and leaves the transform alone; from
  then on no move event publishes boxes, and a move with one touch changes nothing. A move
  event applies the update of one gesture at most: the pinch with two touches (only the
  scale can change), else the pan when \<open>isPanning\<close> is set (only the translation can
  change), else the edit of the active box (the component state does not change). A
  pointer-down with one touch sets the flags of its own gesture and clears nothing, so it
  is from a state without a gesture that it leaves exactly one gesture flagged.
\<close>

theorem second_touch_cancels:
  "(length touches = 2 \<longrightarrow>
      (\<exists>s'. handleTouchStart touches index mode ms s = Inr s'
         \<and> \<not> isPanning s' \<and> activeId s' = None \<and> interactionMode s' = None
         \<and> pinchStartScaleRef s' = scale (transform s)
         \<and> pinchStartDistRef s' = getPinchDist touches
         \<and> transform s' = transform s
         \<and> (\<forall>container moved. \<exists>s''. handleTouchMove container moved ms s' = Inr (s'', None)
               \<and> (length moved \<noteq> 2 \<longrightarrow> s'' = s') \<and> \<not> isPanning s'' \<and> activeId s'' = None
               \<and> x (transform s'') = x (transform s) \<and> y (transform s'') = y (transform s))))
   \<and> (handleTouchMove container moved ms s = Inr (s1, pub) \<longrightarrow>
        (if length moved = 2
         then pub = None \<and> s1 = s\<lparr>transform := (transform s)\<lparr>scale := scale (transform s1)\<rparr>\<rparr>
         else if isPanning s
         then pub = None
              \<and> s1 = s\<lparr>transform := (transform s)\<lparr>x := x (transform s1), y := y (transform s1)\<rparr>\<rparr>
         else s1 = s))
   \<and> (\<not> isPanning s \<and> activeId s = None \<and> length touches \<noteq> 2 \<and> touches \<noteq> [] \<longrightarrow>
        (\<exists>s'. handleTouchStart touches index mode ms s = Inr s'
           \<and> isPanning s' = (index = None) \<and> activeId s' = index))"
proof (intro conjI impI)
  assume two: "length touches = 2"
  let ?s' = "s\<lparr>pinchStartDistRef := getPinchDist touches,
            pinchStartScaleRef := scale (transform s),
            isPanning := False, activeId := None, interactionMode := None\<rparr>"
  have 1: "handleTouchStart touches index mode ms s = Inr ?s'"
    using two by (rule second_touch)
  have 2: "\<forall>container moved. \<exists>s''. handleTouchMove container moved ms ?s' = Inr (s'', None)
               \<and> (length moved \<noteq> 2 \<longrightarrow> s'' = ?s') \<and> \<not> isPanning s'' \<and> activeId s'' = None
               \<and> x (transform s'') = x (transform s) \<and> y (transform s'') = y (transform s)"
  proof (intro allI)
    fix container moved
    from no_gesture_move [of ?s' container moved ms]
    show "\<exists>s''. handleTouchMove container moved ms ?s' = Inr (s'', None)
               \<and> (length moved \<noteq> 2 \<longrightarrow> s'' = ?s') \<and> \<not> isPanning s'' \<and> activeId s'' = None
               \<and> x (transform s'') = x (transform s) \<and> y (transform s'') = y (transform s)"
      by simp
  qed
  have 3: "\<not> isPanning ?s' \<and> activeId ?s' = None \<and> interactionMode ?s' = None
         \<and> pinchStartScaleRef ?s' = scale (transform s)
         \<and> pinchStartDistRef ?s' = getPinchDist touches
         \<and> transform ?s' = transform s"
    by simp
  from 1 2 3
  show "\<exists>s'. handleTouchStart touches index mode ms s = Inr s'
         \<and> \<not> isPanning s' \<and> activeId s' = None \<and> interactionMode s' = None
         \<and> pinchStartScaleRef s' = scale (transform s)
         \<and> pinchStartDistRef s' = getPinchDist touches
         \<and> transform s' = transform s
         \<and> (\<forall>container moved. \<exists>s''. handleTouchMove container moved ms s' = Inr (s'', None)
               \<and> (length moved \<noteq> 2 \<longrightarrow> s'' = s') \<and> \<not> isPanning s'' \<and> activeId s'' = None
               \<and> x (transform s'') = x (transform s) \<and> y (transform s'') = y (transform s))"
    by blast
next
  assume "handleTouchMove container moved ms s = Inr (s1, pub)"
  then show "if length moved = 2
         then pub = None \<and> s1 = s\<lparr>transform := (transform s)\<lparr>scale := scale (transform s1)\<rparr>\<rparr>
         else if isPanning s
         then pub = None
              \<and> s1 = s\<lparr>transform := (transform s)\<lparr>x := x (transform s1), y := y (transform s1)\<rparr>\<rparr>
         else s1 = s"
    by (rule touch_move_one_gesture)
next
  assume "\<not> isPanning s \<and> activeId s = None \<and> length touches \<noteq> 2 \<and> touches \<noteq> []"
  then show "\<exists>s'. handleTouchStart touches index mode ms s = Inr s'
           \<and> isPanning s' = (index = None) \<and> activeId s' = index"
    using first_touch by blast
qed


theorem second_touch_cancels_witness:
  "(\<exists>s'. handleTouchStart [pointerAt 100 100, pointerAt 400 100] None ''pan'' [thumbBox]
            (draggingBox thumbBox) = Inr s'
        \<and> \<not> isPanning s' \<and> activeId s' = None \<and> interactionMode s' = None
        \<and> pinchStartScaleRef s' = 1 \<and> pinchStartDistRef s' = 300
        \<and> handleTouchMove (Some rect500) [pointerAt 150 100] [thumbBox] s' = Inr (s', None))
   \<and> handleTouchMove (Some rect500) [pointerAt 150 100] [thumbBox] initialOverlay
        = Inr (initialOverlay, None)
   \<and> (\<exists>s'. handleTouchStart [pointerAt 100 100] (Some 0) ''drag'' [thumbBox] initialOverlay = Inr s'
        \<and> \<not> isPanning s' \<and> activeId s' = Some 0)"
proof -
  note inst = second_touch_cancels [where touches = "[pointerAt 100 100, pointerAt 400 100]"
      and index = None and mode = "''pan''" and ms = "[thumbBox]" and s = "draggingBox thumbBox"
      and container = "Some rect500" and moved = "[pointerAt 150 100]"
      and ?s1.0 = "draggingBox thumbBox" and pub = "Some [thumbBox]"]
  have d: "getPinchDist [pointerAt 100 100, pointerAt 400 100] = 300"
    by (simp add: getPinchDist_def pointerAt_def Math_hypot_zero)
  have sc: "scale (transform (draggingBox thumbBox)) = 1"
    by (simp add: draggingBox_def initialOverlay_def)
  from inst have "\<exists>s'. handleTouchStart [pointerAt 100 100, pointerAt 400 100] None ''pan'' [thumbBox]
            (draggingBox thumbBox) = Inr s'
        \<and> \<not> isPanning s' \<and> activeId s' = None \<and> interactionMode s' = None
        \<and> pinchStartScaleRef s' = scale (transform (draggingBox thumbBox))
        \<and> pinchStartDistRef s' = getPinchDist [pointerAt 100 100, pointerAt 400 100]
        \<and> (\<forall>container moved. \<exists>s''. handleTouchMove container moved [thumbBox] s' = Inr (s'', None)
               \<and> (length moved \<noteq> 2 \<longrightarrow> s'' = s'))"
    by simp blast
  then obtain s' where s': "handleTouchStart [pointerAt 100 100, pointerAt 400 100] None ''pan''
        [thumbBox] (draggingBox thumbBox) = Inr s'"
      "\<not> isPanning s'" "activeId s' = None" "interactionMode s' = None"
      "pinchStartScaleRef s' = scale (transform (draggingBox thumbBox))"
      "pinchStartDistRef s' = getPinchDist [pointerAt 100 100, pointerAt 400 100]"
      "\<forall>container moved. \<exists>s''. handleTouchMove container moved [thumbBox] s' = Inr (s'', None)
               \<and> (length moved \<noteq> 2 \<longrightarrow> s'' = s')"
    by blast
  from s'(7) have mv: "handleTouchMove (Some rect500) [pointerAt 150 100] [thumbBox] s' = Inr (s', None)"
    by (metis One_nat_def length_Cons list.size(3) numeral_eq_one_iff semiring_norm(85))
  have a: "\<exists>s'. handleTouchStart [pointerAt 100 100, pointerAt 400 100] None ''pan'' [thumbBox]
            (draggingBox thumbBox) = Inr s'
        \<and> \<not> isPanning s' \<and> activeId s' = None \<and> interactionMode s' = None
        \<and> pinchStartScaleRef s' = 1 \<and> pinchStartDistRef s' = 300
        \<and> handleTouchMove (Some rect500) [pointerAt 150 100] [thumbBox] s' = Inr (s', None)"
    using s'(1-6) mv unfolding d sc by blast
  have idle: "\<not> isPanning initialOverlay \<and> activeId initialOverlay = None
      \<and> length [pointerAt 100 100] \<noteq> 2 \<and> [pointerAt 100 100] \<noteq> []"
    by (simp add: initialOverlay_def)
  from second_touch_cancels [where touches = "[pointerAt 100 100]" and index = "Some 0"
      and mode = "''drag''" and ms = "[thumbBox]" and s = initialOverlay] idle
  have c: "\<exists>s'. handleTouchStart [pointerAt 100 100] (Some 0) ''drag'' [thumbBox] initialOverlay = Inr s'
        \<and> \<not> isPanning s' \<and> activeId s' = Some 0"
    by simp
  have b: "handleTouchMove (Some rect500) [pointerAt 150 100] [thumbBox] initialOverlay
        = Inr (initialOverlay, None)"
    by (simp add: handleTouchMove_def initialOverlay_def)
  from a b c show ?thesis by blast
qed

text \<open>
  Two gestures flagged at once. With the mouse: a button goes down on the background, then
  another one on box 0 before any release. With touches alone: after a pinch, a third finger
  on the background and a fourth on box 0 (the handlers read \<open>e.touches[0]\<close>, the oldest
  touch).
\<close>

theorem two_gestures_flagged:
  "mouseEvents [MouseDown (pointerAt 10 10) None ''pan'', MouseDown (pointerAt 100 100) (Some 0) ''drag'']
     (initialOverlay, [thumbBox])
     = Inr ((draggingBox thumbBox)
              \<lparr>isPanning := True, panStartRef := \<lparr>x = 10, y = 10\<rparr>,
               panStartTransformRef := \<lparr>x = 0, y = 0\<rparr>\<rparr>, [thumbBox])
   \<and> touchEvents [TouchStart [pointerAt 10 10] None ''pan'',
                  TouchStart [pointerAt 10 10, pointerAt 10 20] None ''pan'',
                  TouchStart [pointerAt 10 10, pointerAt 10 20, pointerAt 10 30] None ''pan'',
                  TouchStart [pointerAt 10 10, pointerAt 10 20, pointerAt 10 30, pointerAt 100 100]
                    (Some 0) ''drag'']
       (initialOverlay, [thumbBox])
     = Inr ((draggingBox thumbBox)
              \<lparr>isPanning := True, panStartRef := \<lparr>x = 10, y = 10\<rparr>,
               panStartTransformRef := \<lparr>x = 0, y = 0\<rparr>, pinchStartDistRef := 10,
               dragStartRef := \<lparr>x = 10, y = 10\<rparr>\<rparr>, [thumbBox])
   \<and> isPanning ((draggingBox thumbBox)\<lparr>isPanning := True\<rparr>)
   \<and> activeId ((draggingBox thumbBox)\<lparr>isPanning := True\<rparr>) = Some 0"
proof -
  have h: "Math_hypot 0 (- 10) = 10"
    by (simp add: Math_hypot_def real_sqrt_eq_iff [symmetric] del: real_sqrt_eq_iff)
  show ?thesis
    by (simp add: handleMouseDown_def handleTouchStart_def draggingBox_def initialOverlay_def
        pointerAt_def takeSnapshot_def getPinchDist_def h)
qed

subsection \<open>Rotation\<close>

lemma Math_atan2_x_axis: "0 < a \<Longrightarrow> Math_atan2 0 a = 0"
  by (simp add: Math_atan2_def)

lemma Math_atan2_y_axis: "0 < b \<Longrightarrow> Math_atan2 b 0 = pi / 2"
  by (simp add: Math_atan2_def)

text \<open>
  The touch handler in rotate mode: the published list has the active box replaced by the
  snapshot with its rotation increased by \<open>currentAngle - startAngle\<close>, both angles taken by
  \<open>Math.atan2\<close> from the centre \<open>(left + x * width, top + y * height)\<close> of the box on screen.
  Nothing normalises the sum.
\<close>

lemma touch_rotate_update:
  assumes "\<not> isPanning s" and "length (t # ts) \<noteq> 2" and "activeId s = Some i"
    and "interactionMode s = Some ''rotate''"
    and "initialMeasurementRef s = Some (Snapshot m0)" and "i < length ms"
  shows "handleTouchMove (Some rect) (t # ts) ms s =
     Inr (s, Some (ms[i := m0\<lparr>boundingBox := (boundingBox m0)
        \<lparr>rotation := rotation (boundingBox m0)
           + (Math_atan2 (clientY t - (topR rect + y (boundingBox m0) * heightR rect))
                         (clientX t - (leftR rect + x (boundingBox m0) * widthR rect))
              - Math_atan2 (y (dragStartRef s) - (topR rect + y (boundingBox m0) * heightR rect))
                           (x (dragStartRef s) - (leftR rect + x (boundingBox m0) * widthR rect)))\<rparr>\<rparr>]))"
  using assms(1-4) _ assms(5,6) gestureUpdate_rotate
  by (rule handleTouchMove_edit) simp

text \<open>
  Two rotate gestures on the same box over the same container, the first dragging the
  handle from \<open>p\<close> to \<open>q\<close> and the second from \<open>q\<close> back to \<open>p\<close>: the second angle
  difference is the opposite of the first, they are added to the snapshot one after the
  other, and the box is the original one again.
\<close>

lemma rotate_there_and_back:
  assumes "gestureUpdate rect q \<lparr>x = clientX p, y = clientY p\<rparr> ''rotate'' m0 = Some m1"
    and "gestureUpdate rect p \<lparr>x = clientX q, y = clientY q\<rparr> ''rotate'' m1 = Some m2"
  shows "rotation (boundingBox m2) = rotation (boundingBox m0)"
proof -
  from assms(1) have m1: "m1 = m0\<lparr>boundingBox := (boundingBox m0)
        \<lparr>rotation := rotation (boundingBox m0)
           + (Math_atan2 (clientY q - (topR rect + y (boundingBox m0) * heightR rect))
                         (clientX q - (leftR rect + x (boundingBox m0) * widthR rect))
              - Math_atan2 (clientY p - (topR rect + y (boundingBox m0) * heightR rect))
                           (clientX p - (leftR rect + x (boundingBox m0) * widthR rect)))\<rparr>\<rparr>"
    by (simp add: gestureUpdate_rotate)
  from assms(2) show ?thesis
    unfolding gestureUpdate_rotate m1 by auto
qed

text \<open>The mouse handler never calls \<open>onMeasurementsChange\<close>, in any mode.\<close>

lemma mouse_move_publishes_nothing:
  assumes "handleMouseMove container e ms s = Inr (s', pub)"
  shows "pub = None"
  using assms
  by (auto simp: handleMouseMove_def Let_def split: if_splits option.splits snapshot.splits)

lemma mouse_events_keep_boxes:
  assumes "mouseEvents evs (s, ms) = Inr (s', ms')"
  shows "ms' = ms"
  using assms
proof (induction evs arbitrary: s)
  case Nil
  then show ?case by simp
next
  case (Cons ev evs)
  then show ?case
  proof (cases ev)
    case (MouseDown e index mode)
    with Cons show ?thesis by simp
  next
    case (MouseMove container e)
    show ?thesis
    proof (cases "handleMouseMove container e ms s")
      case (Inl err)
      with Cons.prems MouseMove show ?thesis by simp
    next
      case (Inr r)
      obtain s1 pub where r: "r = (s1, pub)" by (cases r)
      with Inr mouse_move_publishes_nothing have "pub = None" by blast
      with Cons.prems MouseMove Inr r have "mouseEvents evs (s1, ms) = Inr (s', ms')" by simp
      then show ?thesis by (rule Cons.IH)
    qed
  next
    case MouseUp
    with Cons show ?thesis by simp
  qed
qed

text \<open>
  C9 at a concrete gesture. Box 0 has its centre at (250, 200) on screen; the pointer goes
  down on the rotate handle at (350, 200) and moves to (250, 300), a quarter turn. The
  touch handler publishes the box with rotation \<open>0 + (\<pi>/2 - 0)\<close>. The mouse handler, from
  the same state and with the same pointer position, publishes nothing: the box keeps
  rotation 0.
\<close>

theorem mouse_rotate_not_published:
  "handleMouseDown (pointerAt 350 200) (Some 0) ''rotate'' [thumbBox] initialOverlay
     = rotatingBox thumbBox
   \<and> handleTouchStart [pointerAt 350 200] (Some 0) ''rotate'' [thumbBox] initialOverlay
     = Inr (rotatingBox thumbBox)
   \<and> handleTouchMove (Some rect500) [pointerAt 250 300] [thumbBox] (rotatingBox thumbBox)
     = Inr (rotatingBox thumbBox,
            Some [thumbBox\<lparr>boundingBox :=
                    \<lparr>x = 0.5, y = 0.5, width = 0.05, height = 0.04, rotation = pi / 2\<rparr>\<rparr>])
   \<and> handleMouseMove (Some rect500) (pointerAt 250 300) [thumbBox] (rotatingBox thumbBox)
     = Inr (rotatingBox thumbBox, None)"
  by (simp add: handleMouseDown_def handleTouchStart_def handleTouchMove_def handleMouseMove_def
      rotatingBox_def initialOverlay_def thumbBox_def rect500_def pointerAt_def takeSnapshot_def
      falsyMode_def gestureUpdate_def Let_def assignAt_def Math_atan2_def)

subsection \<open>Calibration\<close>

lemma find_Some_nonempty: "find P xs = Some v \<Longrightarrow> length xs \<noteq> 0"
  by (cases xs) simp_all

text \<open>A box of the detector has the measurement's \<open>width\<close> as the width of the box.\<close>

lemma nailOfFinger_width:
  assumes "nailOfFinger landmarks f = Inr m"
  shows "widthM m = width (boundingBox m)"
  using assms by (auto simp: nailOfFinger_def Let_def split: if_splits)

text \<open>
  The effect in the flow of an analysis: the image loads into a session without boxes and
  without calibration, the detector returns boxes with a thumb among them.
\<close>

lemma implied_after_detection:
  assumes "\<not> showCoinTool s" and "pixelsPerMM s = None" and "measurements s = []"
    and "detect (landmarker s) src = Inr r"
    and "find (\<lambda>m. finger m = ''Thumb'') (measurementsR r) = Some thumb"
    and "w \<noteq> 0"
  shows "pixelsPerMM (appEvent (ImageLoaded src w h) s) = Some (widthM thumb * w / 15.0)"
  using assms find_Some_nonempty [OF assms(5)]
  by (simp add: afterRender_def onloadSetSize_def onloadDetect_def implicitCalibration_def Let_def)

lemma implicitCalibration_thumb:
  assumes "\<not> showCoinTool s" and "pixelsPerMM s = None"
    and "find (\<lambda>m. finger m = ''Thumb'') (measurements s) = Some thumb"
    and "widthI (imageSize s) \<noteq> 0"
  shows "implicitCalibration s
       = s\<lparr>pixelsPerMM := Some (widthM thumb * widthI (imageSize s) / 15.0)\<rparr>"
  using assms find_Some_nonempty [OF assms(3)]
  by (simp add: implicitCalibration_def Let_def)

text \<open>
  C4. With the coin tool closed, no value set, a first measurement whose finger is
  \<open>Thumb\<close> and a known (non-zero) native width, the effect sets the value to the thumb's
  \<open>width\<close> field times the native width, divided by 15.
\<close>

theorem implied_calibration:
  assumes "\<not> showCoinTool s" and "pixelsPerMM s = None"
    and "find (\<lambda>m. finger m = ''Thumb'') (measurements s) = Some thumb"
    and "widthI (imageSize s) \<noteq> 0"
  shows "implicitCalibration s
       = s\<lparr>pixelsPerMM := Some (widthM thumb * widthI (imageSize s) / 15.0)\<rparr>"
  using assms by (rule implicitCalibration_thumb)

theorem implied_calibration_witness:
  "implicitCalibration detected4000 = detected4000\<lparr>pixelsPerMM := Some (40 / 3)\<rparr>
   \<and> \<bar>40 / 3 - 13.33\<bar> < (0.01::real)"
proof -
  have "implicitCalibration detected4000
       = detected4000\<lparr>pixelsPerMM := Some (widthM thumbBox * widthI (imageSize detected4000) / 15.0)\<rparr>"
    by (rule implied_calibration) (simp_all add: detected4000_def initialApp_def thumbBox_def)
  moreover have "widthM thumbBox * widthI (imageSize detected4000) / 15.0 = 40 / 3"
    by (simp add: detected4000_def thumbBox_def)
  ultimately show ?thesis by simp
qed

text \<open>
  The diameter is kept in the frame of the canvas before zoom: a resize adds the larger
  of the two pointer deltas divided by the zoom.
\<close>

lemma coin_resize:
  assumes "isResizing c" and "\<not> isDragging c"
  shows "diameter (coinMouseMove sc e c)
       = max 20 (diameter c + max ((clientX e - x (coinDragStartRef c)) / sc)
                                  ((clientY e - y (coinDragStartRef c)) / sc))"
  using assms by (simp add: coinMouseMove_def Let_def)

text \<open>
  C5. While the tool is visible the disk reports its diameter divided by 26.0, and the
  controller multiplies what it receives by the native width over the rendered width of
  its container.
\<close>

theorem manual_calibration:
  assumes "renderWidth \<noteq> 0" and "0 < widthI (imageSize s)"
  shows "coinCalibration True c = Some (diameter c / 26.0)
       \<and> onCalibrationChange (Some renderWidth) (diameter c / 26.0) s
           = s\<lparr>pixelsPerMM := Some (diameter c / 26.0 * (widthI (imageSize s) / renderWidth))\<rparr>
       \<and> (showCoinTool s \<longrightarrow>
            coinEffect c (Some renderWidth) s
              = s\<lparr>pixelsPerMM := Some (diameter c / 26.0 * (widthI (imageSize s) / renderWidth))\<rparr>)"
  using assms
  by (simp add: coinCalibration_def COIN_DIAMETER_MM_def onCalibrationChange_def Let_def)

theorem manual_calibration_witness:
  "coinCalibration True initialCoin = Some (100 / 26)
   \<and> \<bar>100 / 26 - 3.846\<bar> < (0.001::real)
   \<and> coinEffect initialCoin (Some 500) (detected4000\<lparr>showCoinTool := True\<rparr>)
       = detected4000\<lparr>showCoinTool := True, pixelsPerMM := Some (400 / 13)\<rparr>
   \<and> \<bar>400 / 13 - 30.77\<bar> < (0.01::real)"
proof -
  have w: "0 < widthI (imageSize (detected4000\<lparr>showCoinTool := True\<rparr>))"
    by (simp add: detected4000_def initialApp_def)
  have r: "(500::real) \<noteq> 0" by simp
  from manual_calibration [OF r w, of initialCoin]
  show ?thesis
    by (simp add: initialCoin_def detected4000_def initialApp_def)
qed

subsection \<open>A value that is set stays\<close>

lemma implicitCalibration_defined:
  assumes "pixelsPerMM s \<noteq> None"
  shows "implicitCalibration s = s"
  using assms by (simp add: implicitCalibration_def)

lemma implicitCalibration_keeps:
  "pixelsPerMM s = Some v \<Longrightarrow> pixelsPerMM (implicitCalibration s) = Some v"
  by (simp add: implicitCalibration_def)

lemma implicitCalibration_only_defines:
  "pixelsPerMM (implicitCalibration s) = None \<Longrightarrow> pixelsPerMM s = None"
  by (auto simp: implicitCalibration_def Let_def split: if_splits option.splits)

lemma afterRender_keeps:
  "pixelsPerMM new = Some v \<Longrightarrow> pixelsPerMM (afterRender newArray old new) = Some v"
  by (simp add: afterRender_def implicitCalibration_keeps)

lemma afterRender_only_defines:
  "pixelsPerMM (afterRender newArray old new) = None \<Longrightarrow> pixelsPerMM new = None"
  by (auto simp: afterRender_def dest: implicitCalibration_only_defines split: if_splits)

lemma edit_keeps:
  "pixelsPerMM s = Some v \<Longrightarrow> pixelsPerMM (appEvent (MeasurementsChange ms) s) = Some v"
  by (simp add: afterRender_keeps)

lemma edits_keep:
  "pixelsPerMM s = Some v \<Longrightarrow> pixelsPerMM (appEvents (map MeasurementsChange edits) s) = Some v"
proof (induction edits arbitrary: s)
  case Nil
  then show ?case by simp
next
  case (Cons ms edits)
  from Cons.prems have "pixelsPerMM (appEvent (MeasurementsChange ms) s) = Some v"
    by (rule edit_keeps)
  then have "pixelsPerMM (appEvents (map MeasurementsChange edits) (appEvent (MeasurementsChange ms) s)) = Some v"
    by (rule Cons.IH)
  then show ?case by simp
qed

lemma onCalibrationChange_defines: "pixelsPerMM (onCalibrationChange container px s) \<noteq> None"
  by (simp add: onCalibrationChange_def Let_def split: option.splits)

lemma coinEffect_keeps_defined:
  "pixelsPerMM s \<noteq> None \<Longrightarrow> pixelsPerMM (coinEffect c container s) \<noteq> None"
  using onCalibrationChange_defines
  by (simp add: coinCalibration_def)

lemma close_tool_keeps:
  assumes "showCoinTool s" and "pixelsPerMM s = Some v"
  shows "pixelsPerMM (appEvent (CoinTool c container) s) = Some v"
  using assms by (simp add: coinCalibration_def afterRender_keeps)

text \<open>
  C6. Once the callback of the disk has set the value, any number of box edits, whatever
  lists they publish, leave it as it is, also after the tool has been closed: the effect
  that follows each edit returns at its second guard.
\<close>

theorem manual_calibration_sticky:
  "pixelsPerMM (appEvents (map MeasurementsChange edits) (onCalibrationChange container px s))
     = pixelsPerMM (onCalibrationChange container px s)
   \<and> pixelsPerMM (onCalibrationChange container px s) \<noteq> None
   \<and> (showCoinTool s \<longrightarrow>
        pixelsPerMM (appEvents (CoinTool c container' # map MeasurementsChange edits)
                       (onCalibrationChange container px s))
          = pixelsPerMM (onCalibrationChange container px s))"
proof -
  let ?s1 = "onCalibrationChange container px s"
  obtain v where v: "pixelsPerMM ?s1 = Some v"
    using onCalibrationChange_defines [of container px s] by auto
  have a: "pixelsPerMM (appEvents (map MeasurementsChange edits) ?s1) = pixelsPerMM ?s1"
    using edits_keep [OF v] v by simp
  have b: "showCoinTool s \<longrightarrow>
        pixelsPerMM (appEvents (CoinTool c container' # map MeasurementsChange edits) ?s1)
          = pixelsPerMM ?s1"
  proof
    assume "showCoinTool s"
    then have "showCoinTool ?s1"
      by (simp add: onCalibrationChange_def Let_def split: option.splits)
    from close_tool_keeps [OF this v]
    have "pixelsPerMM (appEvent (CoinTool c container') ?s1) = Some v" .
    from edits_keep [OF this] v
    show "pixelsPerMM (appEvents (CoinTool c container' # map MeasurementsChange edits) ?s1)
          = pixelsPerMM ?s1"
      by simp
  qed
  from a b v show ?thesis by simp
qed

theorem manual_calibration_sticky_witness:
  "pixelsPerMM (appEvents [CoinTool initialCoin (Some 500),
                           MeasurementsChange [thumbBox\<lparr>boundingBox := (boundingBox thumbBox)\<lparr>width := 0.2\<rparr>\<rparr>],
                           MeasurementsChange [thinBox]]
                  (onCalibrationChange (Some 500) (100 / 26) (detected4000\<lparr>showCoinTool := True\<rparr>)))
     = Some (400 / 13)"
proof -
  have sh: "showCoinTool (detected4000\<lparr>showCoinTool := True\<rparr>)" by simp
  have v: "pixelsPerMM (onCalibrationChange (Some 500) (100 / 26) (detected4000\<lparr>showCoinTool := True\<rparr>))
      = Some (400 / 13)"
    by (simp add: onCalibrationChange_def Let_def detected4000_def initialApp_def)
  from manual_calibration_sticky [where edits = "[[thumbBox\<lparr>boundingBox := (boundingBox thumbBox)\<lparr>width := 0.2\<rparr>\<rparr>], [thinBox]]"
      and container = "Some 500" and px = "100 / 26" and s = "detected4000\<lparr>showCoinTool := True\<rparr>"
      and c = initialCoin and container' = "Some 500"] sh v
  show ?thesis by simp
qed


lemma undefine_only_by_capture_or_reset:
  assumes "pixelsPerMM s \<noteq> None" and "pixelsPerMM (appEvent ev s) = None"
  shows "(\<exists>src. ev = Capture src) \<or> ev = Reset"
proof (cases ev)
  case (ModelReady created)
  with assms show ?thesis by (simp add: initLandmarker_def split: option.splits)
next
  case (Capture src)
  then show ?thesis by blast
next
  case (ImageLoaded src w h)
  from assms(1) obtain v where v: "pixelsPerMM s = Some v" by auto
  let ?s1 = "afterRender False s (onloadSetSize w h s)"
  have 1: "pixelsPerMM ?s1 = Some v"
    using v by (simp add: afterRender_keeps onloadSetSize_def)
  have "pixelsPerMM (onloadDetect (detect (landmarker s) src) ?s1) = Some v"
    using 1 by (simp add: onloadDetect_def split: sum.splits)
  then have "pixelsPerMM (appEvent ev s) = Some v"
    unfolding ImageLoaded by (simp add: Let_def afterRender_keeps)
  with assms(2) show ?thesis by simp
next
  case Reset
  then show ?thesis by blast
next
  case (CoinTool c container)
  from assms(1) have "pixelsPerMM (coinEffect c container (s\<lparr>showCoinTool := \<not> showCoinTool s\<rparr>)) \<noteq> None"
    by (intro coinEffect_keeps_defined) simp
  then have "pixelsPerMM (appEvent ev s) \<noteq> None"
    unfolding CoinTool using afterRender_keeps by (auto simp: Let_def simp del: coinEffect.simps)
  with assms(2) show ?thesis by simp
next
  case (CoinResized c container)
  with assms coinEffect_keeps_defined [of s c container] show ?thesis
    by (simp del: coinEffect.simps)
next
  case (MeasurementsChange ms)
  with assms edit_keeps show ?thesis by fastforce
qed

text \<open>
  C10. The effect leaves a state with a value as it is, whichever producer set the value.
  The value the effect itself computes from the thumb stays through any number of box
  edits, with the coin tool never opened. An event that takes the value away is a capture
  (\<open>analyzeImage\<close>) or a reset, and both set it to undefined.
\<close>

theorem implied_writes_once:
  "(pixelsPerMM s \<noteq> None \<longrightarrow> implicitCalibration s = s)
   \<and> (pixelsPerMM s \<noteq> None \<longrightarrow>
        pixelsPerMM (appEvents (map MeasurementsChange edits) s) = pixelsPerMM s)
   \<and> (\<not> showCoinTool s \<and> pixelsPerMM s = None
        \<and> find (\<lambda>m. finger m = ''Thumb'') (measurements s) = Some thumb
        \<and> widthI (imageSize s) \<noteq> 0 \<longrightarrow>
        pixelsPerMM (appEvents (map MeasurementsChange edits) (implicitCalibration s))
          = Some (widthM thumb * widthI (imageSize s) / 15.0))
   \<and> (pixelsPerMM s \<noteq> None \<and> pixelsPerMM (appEvent ev s) = None \<longrightarrow>
        (\<exists>src. ev = Capture src) \<or> ev = Reset)
   \<and> pixelsPerMM (handleCapture src s) = None
   \<and> pixelsPerMM (appEvent Reset s) = None"
proof (intro conjI impI)
  assume "pixelsPerMM s \<noteq> None"
  then show "implicitCalibration s = s" by (rule implicitCalibration_defined)
next
  assume "pixelsPerMM s \<noteq> None"
  then obtain v where "pixelsPerMM s = Some v" by auto
  with edits_keep [of s v edits]
  show "pixelsPerMM (appEvents (map MeasurementsChange edits) s) = pixelsPerMM s" by simp
next
  assume a: "\<not> showCoinTool s \<and> pixelsPerMM s = None
        \<and> find (\<lambda>m. finger m = ''Thumb'') (measurements s) = Some thumb
        \<and> widthI (imageSize s) \<noteq> 0"
  then have "implicitCalibration s
       = s\<lparr>pixelsPerMM := Some (widthM thumb * widthI (imageSize s) / 15.0)\<rparr>"
    by (intro implicitCalibration_thumb) simp_all
  then have "pixelsPerMM (implicitCalibration s) = Some (widthM thumb * widthI (imageSize s) / 15.0)"
    by simp
  then show "pixelsPerMM (appEvents (map MeasurementsChange edits) (implicitCalibration s))
          = Some (widthM thumb * widthI (imageSize s) / 15.0)"
    by (rule edits_keep)
next
  assume "pixelsPerMM s \<noteq> None \<and> pixelsPerMM (appEvent ev s) = None"
  then show "(\<exists>src. ev = Capture src) \<or> ev = Reset"
    using undefine_only_by_capture_or_reset by blast
next
  show "pixelsPerMM (handleCapture src s) = None"
    by (simp add: handleCapture_def analyzeImage_def)
next
  show "pixelsPerMM (appEvent Reset s) = None"
    by (simp add: afterRender_def reset_def implicitCalibration_def)
qed

theorem implied_writes_once_witness:
  "pixelsPerMM (appEvents [MeasurementsChange [thumbBox\<lparr>boundingBox := (boundingBox thumbBox)\<lparr>width := 0.2\<rparr>\<rparr>],
                           MeasurementsChange [thinBox]]
                  (implicitCalibration detected4000)) = Some (40 / 3)
   \<and> implicitCalibration (implicitCalibration detected4000) = implicitCalibration detected4000
   \<and> pixelsPerMM (appEvent Reset (implicitCalibration detected4000)) = None"
proof -
  note inst = implied_writes_once [where s = detected4000 and thumb = thumbBox
      and edits = "[[thumbBox\<lparr>boundingBox := (boundingBox thumbBox)\<lparr>width := 0.2\<rparr>\<rparr>], [thinBox]]"]
  have h: "\<not> showCoinTool detected4000 \<and> pixelsPerMM detected4000 = None
        \<and> find (\<lambda>m. finger m = ''Thumb'') (measurements detected4000) = Some thumbBox
        \<and> widthI (imageSize detected4000) \<noteq> 0"
    by (simp add: detected4000_def initialApp_def thumbBox_def)
  have v: "widthM thumbBox * widthI (imageSize detected4000) / 15.0 = 40 / 3"
    by (simp add: detected4000_def thumbBox_def)
  from inst h v have a: "pixelsPerMM (appEvents [MeasurementsChange [thumbBox\<lparr>boundingBox := (boundingBox thumbBox)\<lparr>width := 0.2\<rparr>\<rparr>],
                           MeasurementsChange [thinBox]]
                  (implicitCalibration detected4000)) = Some (40 / 3)"
    by simp
  have d: "pixelsPerMM (implicitCalibration detected4000) \<noteq> None"
    using implicitCalibration_thumb [of detected4000 thumbBox] h by simp
  from implied_writes_once [where s = "implicitCalibration detected4000"] d
  have b: "implicitCalibration (implicitCalibration detected4000) = implicitCalibration detected4000"
    and c: "pixelsPerMM (appEvent Reset (implicitCalibration detected4000)) = None"
    by blast+
  from a b c show ?thesis by blast
qed

subsection \<open>A detection that fails\<close>

lemma detect_not_loaded: "detect None src = Inl (Error ''Model not loaded'')"
  by (simp add: detect_def)

lemma detect_landmarker_throws:
  "handLandmarker src = Inl err \<Longrightarrow> detect (Some handLandmarker) src = Inl err"
  by (simp add: detect_def)

lemma afterRender_frame:
  "measurements (afterRender newArray old new) = measurements new
   \<and> modelError (afterRender newArray old new) = modelError new
   \<and> consoleErrors (afterRender newArray old new) = consoleErrors new
   \<and> isAnalyzing (afterRender newArray old new) = isAnalyzing new
   \<and> appMode (afterRender newArray old new) = appMode new
   \<and> landmarker (afterRender newArray old new) = landmarker new
   \<and> imageSize (afterRender newArray old new) = imageSize new"
  by (simp add: afterRender_def implicitCalibration_def Let_def split: option.splits)

lemma failed_load:
  assumes "detect (landmarker s) src = Inl err"
  shows "measurements (appEvent (ImageLoaded src w h) s) = measurements s"
    and "modelError (appEvent (ImageLoaded src w h) s) = modelError s"
    and "consoleErrors (appEvent (ImageLoaded src w h) s) = consoleErrors s @ [''Detection failed:'']"
    and "\<not> isAnalyzing (appEvent (ImageLoaded src w h) s)"
    and "appMode (appEvent (ImageLoaded src w h) s) = appMode s"
  using assms by (simp_all add: Let_def afterRender_frame onloadDetect_def onloadSetSize_def)

lemma capture_frame:
  "measurements (appEvent (Capture src) s) = measurements s
   \<and> landmarker (appEvent (Capture src) s) = landmarker s
   \<and> modelError (appEvent (Capture src) s) = modelError s
   \<and> consoleErrors (appEvent (Capture src) s) = consoleErrors s"
  by (simp add: afterRender_frame handleCapture_def analyzeImage_def)

lemma reset_frame:
  "measurements (appEvent Reset s) = []
   \<and> landmarker (appEvent Reset s) = landmarker s
   \<and> modelError (appEvent Reset s) = modelError s
   \<and> consoleErrors (appEvent Reset s) = consoleErrors s"
  by (simp add: afterRender_frame reset_def)

text \<open>
  C7, as the code has it. When the one call of \<open>detect\<close> throws, the handler catches the
  error and appends a line to the console; \<open>modelError\<close>, the only error the page shows,
  is not written, nor is the measurement list, and \<open>isAnalyzing\<close> is cleared. The list is
  therefore empty after a failure whenever it was empty when the image was captured, as
  it is after a reset.
\<close>

theorem detection_failure:
  "(detect (landmarker s) src = Inl err \<longrightarrow>
      measurements (appEvent (ImageLoaded src w h) s) = measurements s
      \<and> modelError (appEvent (ImageLoaded src w h) s) = modelError s
      \<and> consoleErrors (appEvent (ImageLoaded src w h) s) = consoleErrors s @ [''Detection failed:'']
      \<and> \<not> isAnalyzing (appEvent (ImageLoaded src w h) s)
      \<and> appMode (appEvent (ImageLoaded src w h) s) = appMode s)
   \<and> (detect (landmarker s) src = Inl err \<longrightarrow>
      measurements (appEvents [Reset, Capture src, ImageLoaded src w h] s) = []
      \<and> modelError (appEvents [Reset, Capture src, ImageLoaded src w h] s) = modelError s
      \<and> consoleErrors (appEvents [Reset, Capture src, ImageLoaded src w h] s)
          = consoleErrors s @ [''Detection failed:''])"
proof (intro conjI impI)
  assume f: "detect (landmarker s) src = Inl err"
  from failed_load [OF f]
  show "measurements (appEvent (ImageLoaded src w h) s) = measurements s"
    and "modelError (appEvent (ImageLoaded src w h) s) = modelError s"
    and "consoleErrors (appEvent (ImageLoaded src w h) s) = consoleErrors s @ [''Detection failed:'']"
    and "\<not> isAnalyzing (appEvent (ImageLoaded src w h) s)"
    and "appMode (appEvent (ImageLoaded src w h) s) = appMode s"
    by blast+
next
  assume f: "detect (landmarker s) src = Inl err"
  let ?s2 = "appEvent (Capture src) (appEvent Reset s)"
  have lm: "landmarker ?s2 = landmarker s"
    using capture_frame [of src "appEvent Reset s"] reset_frame [of s] by simp
  have f2: "detect (landmarker ?s2) src = Inl err"
    using f lm by simp
  have ms: "measurements ?s2 = []" "modelError ?s2 = modelError s" "consoleErrors ?s2 = consoleErrors s"
    using capture_frame [of src "appEvent Reset s"] reset_frame [of s] by simp_all
  have ev: "appEvents [Reset, Capture src, ImageLoaded src w h] s = appEvent (ImageLoaded src w h) ?s2"
    by simp
  from failed_load(1-3) [OF f2, of w h] ms
  show "measurements (appEvents [Reset, Capture src, ImageLoaded src w h] s) = []"
    and "modelError (appEvents [Reset, Capture src, ImageLoaded src w h] s) = modelError s"
    and "consoleErrors (appEvents [Reset, Capture src, ImageLoaded src w h] s)
          = consoleErrors s @ [''Detection failed:'']"
    unfolding ev by simp_all
qed

theorem detection_failure_witness:
  "measurements (appEvents [Reset, Capture ''hand.jpg'', ImageLoaded ''hand.jpg'' 4000 3000]
                   (detected4000\<lparr>landmarker := Some failingLandmarker\<rparr>)) = []
   \<and> consoleErrors (appEvents [Reset, Capture ''hand.jpg'', ImageLoaded ''hand.jpg'' 4000 3000]
                   (detected4000\<lparr>landmarker := Some failingLandmarker\<rparr>)) = [''Detection failed:'']
   \<and> measurements (appEvent (ImageLoaded ''hand.jpg'' 4000 3000)
                      (detected4000\<lparr>landmarker := Some failingLandmarker\<rparr>)) = [thumbBox]"
proof -
  have f: "detect (landmarker (detected4000\<lparr>landmarker := Some failingLandmarker\<rparr>)) ''hand.jpg''
      = Inl (Error ''detect failed'')"
    by (simp add: detect_def failingLandmarker_def)
  from detection_failure [where s = "detected4000\<lparr>landmarker := Some failingLandmarker\<rparr>"
      and src = "''hand.jpg''" and err = "Error ''detect failed''" and w = 4000 and h = 3000] f
  show ?thesis
    by (simp add: detected4000_def initialApp_def)
qed

text \<open>
  The claim as stated fails twice. From the first render: the model loads, an image is
  captured and loads, the detector throws; afterwards the state holds no error
  (\<open>modelError\<close> is \<open>None\<close>), the failure is in the console only. And when boxes are
  present at the time the image loads, they are still there after the failure.
\<close>

theorem detection_failure_not_surfaced:
  "modelError (appEvents [ModelReady (Some failingLandmarker), Capture ''hand.jpg'',
                          ImageLoaded ''hand.jpg'' 4000 3000] initialApp) = None
   \<and> consoleErrors (appEvents [ModelReady (Some failingLandmarker), Capture ''hand.jpg'',
                          ImageLoaded ''hand.jpg'' 4000 3000] initialApp) = [''Detection failed:'']
   \<and> measurements (appEvents [Capture ''other.jpg'', ImageLoaded ''other.jpg'' 4000 3000]
                      (detected4000\<lparr>landmarker := Some failingLandmarker\<rparr>)) = [thumbBox]"
  by (simp add: initLandmarker_def afterRender_frame handleCapture_def analyzeImage_def
      onloadSetSize_def onloadDetect_def detect_def failingLandmarker_def initialApp_def
      detected4000_def Let_def)

end
